theory Spec2Isabelle
  imports Complex_Main "HOL-Library.Word"
begin

section \<open>The server secure channel layer (lib/server/ServerSecureChannelLayer.js)\<close>

text \<open>
  The channel object of the source is a record that every operation takes and returns
  updated. An exception (a failed \<open>assert\<close>, a property read on \<open>null\<close> or
  \<open>undefined\<close>) is the left summand of the result, together with the channel as the
  throw leaves it. What an operation hands to its collaborators (the transport, the
  observers, the caller's callback) is the list of events it returns, in order.

  Numbers. The JavaScript numbers that count (token and channel identifiers, request
  identifiers and handles, lengths) are naturals: they stay far below \<open>2^53\<close>, where the
  floating-point representation is exact. Lifetimes and delays are rationals, points in
  time are integers (milliseconds), and the product \<open>revisedLifeTime * 120 / 100\<close> is
  taken exactly. The assertions \<open>_.isFinite(...)\<close> hold of every such number.

  Not modelled, because nothing below reads them: the transaction statistics (clock ticks
  and byte counters), \<open>msgType\<close>, the remote address and port, \<open>endpoint\<close>,
  \<open>sessionTokens\<close>, the chunk size, the \<open>_on_response\<close> hook, the debug-only
  \<open>__verifId\<close> table and the text of log lines and error descriptions.
\<close>

subsection \<open>Buffers\<close>

type_synonym byte = "8 word"
type_synonym buffer = "byte list"

text \<open>\<open>Buffer.prototype.toString("hex")\<close>: two lowercase hexadecimal digits per byte.\<close>

definition hex_digit :: "nat \<Rightarrow> char" where
  "hex_digit n = ''0123456789abcdef'' ! n"

definition byte_hex :: "byte \<Rightarrow> string" where
  "byte_hex b = [hex_digit (unat b div 16), hex_digit (unat b mod 16)]"

definition toString_hex :: "buffer \<Rightarrow> string" where
  "toString_hex bs = concat (map byte_hex bs)"

subsection \<open>Enumerations and errors\<close>

datatype error = AssertionError string | TypeError string

datatype StatusCode =
    Good
  | BadCommunicationError
  | BadSecurityPolicyRejected
  | BadSecurityModeRejected
  | BadCertificateInvalid
  | BadCertificateTimeInvalid
  | BadSecurityChecksFailed

datatype MessageSecurityMode = INVALID | NONE | SIGN | SIGNANDENCRYPT

text \<open>
  \<open>isValidSecurityPolicy\<close> tells three policies from all others; the enumeration itself
  is declared in lib/misc/security_policy.
\<close>

datatype SecurityPolicy = Policy_None | Basic128Rsa15 | Basic256 | Policy_Other

datatype SecurityTokenRequestType = ISSUE | RENEW | RequestType_Other

datatype MsgType = OPN | MSG | CLO

subsection \<open>Messages\<close>

record AsymmetricAlgorithmSecurityHeader =
  securityPolicyUri :: string
  senderCertificate :: "buffer option"
  receiverCertificateThumbprint :: "buffer option"

definition None_URI :: string where
  "None_URI = ''http://opcfoundation.org/UA/SecurityPolicy#None''"

record ChannelSecurityToken =
  tok_secureChannelId :: nat
  tokenId :: nat
  createdAt :: int
  tok_revisedLifeTime :: rat

record OpenSecureChannelRequest =
  req_securityMode :: MessageSecurityMode
  req_clientNonce :: "buffer option"
  requestedLifetime :: rat
  requestType :: SecurityTokenRequestType

datatype request_body =
    OpenSecureChannelRequest_body OpenSecureChannelRequest
  | CloseSecureChannelRequest_body
  | Other_request_body

record request =
  requestHandle :: nat
  request_body :: request_body

text \<open>
  The message object the handlers pass around: \<open>{request, securityHeader, requestId}\<close>.
  \<open>_on_common_message\<close> builds it without a \<open>securityHeader\<close>.
\<close>

record message =
  msg_request :: request
  msg_securityHeader :: "AsymmetricAlgorithmSecurityHeader option"
  msg_requestId :: nat

record ResponseHeader =
  serviceResult :: StatusCode
  resp_requestHandle :: nat

datatype response_body =
    OpenSecureChannelResponse_body nat "ChannelSecurityToken option" "buffer option"
  | ServiceFault_body "string option"
  | Other_response_body string

record response =
  responseHeader :: ResponseHeader
  response_body :: response_body

subsection \<open>Collaborators\<close>

record DerivedKeys =
  derivedClientKeys :: buffer
  derivedServerKeys :: buffer

text \<open>
  The crypto provider the message builder selects for the policy of the channel
  (\<open>messageBuilder.cryptoFactory\<close>), with the three members this file uses.
\<close>

record CryptoFactory =
  symmetricKeyLength :: nat
  blockPaddingSize :: nat
  compute_derived_keys :: "buffer \<Rightarrow> buffer \<Rightarrow> DerivedKeys"

text \<open>
  Modelled from the spec: the parent endpoint (\<open>OPCUAServerEndPoint\<close>, not in this file),
  which "supplies certificate chain, private key, and supported (mode, policy) pairs";
  \<open>getEndpointDescription\<close> answers \<open>null\<close> for a pair it does not list.
\<close>

record OPCUAServerEndPoint =
  certificateChain :: buffer
  privateKey :: buffer
  endpointDescriptions :: "(MessageSecurityMode \<times> SecurityPolicy) list"

record certificate_info =
  notBefore :: int
  notAfter :: int
  publicKeyLength :: nat

text \<open>
  What the handlers read from outside the channel while they run: the clock (one reading
  per handler run), the random source, and the library functions of lib/misc that this
  file calls, taken as they come. \<open>expired\<close> is the getter of
  \<open>ChannelSecurityToken\<close>; \<open>exploreCertificate\<close> and
  \<open>extractPublicKeyFromCertificate\<close> answer \<open>None\<close> where they fail.
\<close>

record env =
  now :: int
  entropy :: "nat \<Rightarrow> byte"
  makeSHA1Thumbprint :: "buffer \<Rightarrow> buffer"
  split_der :: "buffer \<Rightarrow> buffer list"
  exploreCertificate :: "buffer \<Rightarrow> certificate_info option"
  extractPublicKeyFromCertificate :: "buffer \<Rightarrow> (buffer \<times> nat) option"
  fromURI :: "string \<Rightarrow> SecurityPolicy"
  expired :: "ChannelSecurityToken \<Rightarrow> bool"

text \<open>\<open>crypto.randomBytes(n)\<close>: \<open>n\<close> bytes of the random source.\<close>

definition randomBytes :: "env \<Rightarrow> nat \<Rightarrow> buffer" where
  "randomBytes e n = map (entropy e) [0..<n]"

subsection \<open>The channel\<close>

text \<open>
  The message builder's members this file reads and writes. \<open>pushNewToken\<close> is a method
  of the builder (lib/misc/message_builder); \<open>tokenStack\<close> holds the tokens it has been
  handed by that method, with their keys, oldest first.
\<close>

record MessageBuilder =
  mb_privateKey :: "buffer option"
  cryptoFactory :: "CryptoFactory option"
  mb_securityMode :: MessageSecurityMode
  mb_securityHeader :: "AsymmetricAlgorithmSecurityHeader option"
  sequenceHeader_requestId :: nat
  tokenStack :: "(ChannelSecurityToken option \<times> buffer option) list"

record MessageChunker =
  mc_securityHeader :: "AsymmetricAlgorithmSecurityHeader option"
  mc_derivedKeys :: "buffer option"

text \<open>A pending \<open>setTimeout\<close>: when it was armed and the delay it was given.\<close>

record timer =
  armed_at :: int
  delay :: rat

record ServerSecureChannelLayer =
  parent :: "OPCUAServerEndPoint option"
  protocolVersion :: nat
  lastTokenId :: nat
  timeout :: rat
  defaultSecureTokenLifetime :: rat
  securityToken :: "ChannelSecurityToken option"
  serverNonce :: "buffer option"
  messageBuilder :: MessageBuilder
  securityHeader :: "AsymmetricAlgorithmSecurityHeader option"
  messageChunker :: MessageChunker
  secureChannelId :: nat
  securityMode :: MessageSecurityMode
  timeoutId :: "timer option"
  transactionsCount :: nat
  clientNonce :: "buffer option"
  revisedLifeTime :: "rat option"
  securityTokenTimeout :: "timer option"
  derivedKeys :: "DerivedKeys option"
  clientSecurityHeader :: "AsymmetricAlgorithmSecurityHeader option"
  clientCertificate :: "buffer option"
  receiverCertificate :: "buffer option"
  receiverPublicKey :: "buffer option"
  receiverPublicKeyLength :: nat
  abort_has_been_called :: bool

type_synonym 'a result = "(error + 'a) \<times> ServerSecureChannelLayer"

record options =
  opt_parent :: "OPCUAServerEndPoint option"
  opt_timeout :: "rat option"
  opt_defaultSecureTokenLifetime :: "rat option"

text \<open>\<open>v || d\<close> on an optional number: \<open>undefined\<close> and \<open>0\<close> are falsy.\<close>

definition or_default :: "rat option \<Rightarrow> rat \<Rightarrow> rat" where
  "or_default v d = (case v of None \<Rightarrow> d | Some x \<Rightarrow> if x = 0 then d else x)"

definition getPrivateKey_of :: "OPCUAServerEndPoint option \<Rightarrow> buffer option" where
  "getPrivateKey_of p = (case p of Some q \<Rightarrow> Some (privateKey q) | None \<Rightarrow> None)"

text \<open>
  The constructor; \<open>last_channel_id\<close> is the module's counter before the call
  (\<open>getNextChannelId\<close> adds one). The placeholder token \<open>{secureChannelId: 0, tokenId: 0}\<close>
  has no other member: its creation time and lifetime are written 0 and never read.
\<close>

definition constructor :: "nat \<Rightarrow> options \<Rightarrow> ServerSecureChannelLayer" where
  "constructor last_channel_id opts =
     \<lparr> parent = opt_parent opts,
       protocolVersion = 0,
       lastTokenId = 0,
       timeout = or_default (opt_timeout opts) 10000,
       defaultSecureTokenLifetime = or_default (opt_defaultSecureTokenLifetime opts) 600000,
       securityToken = Some \<lparr> tok_secureChannelId = 0, tokenId = 0, createdAt = 0,
                               tok_revisedLifeTime = 0 \<rparr>,
       serverNonce = None,
       messageBuilder =
         \<lparr> mb_privateKey = getPrivateKey_of (opt_parent opts),
           cryptoFactory = None, mb_securityMode = INVALID, mb_securityHeader = None,
           sequenceHeader_requestId = 0, tokenStack = [] \<rparr>,
       securityHeader =
         Some \<lparr> securityPolicyUri = None_URI, senderCertificate = None,
                receiverCertificateThumbprint = None \<rparr>,
       messageChunker =
         \<lparr> mc_securityHeader =
             Some \<lparr> securityPolicyUri = None_URI, senderCertificate = None,
                    receiverCertificateThumbprint = None \<rparr>,
           mc_derivedKeys = None \<rparr>,
       secureChannelId = last_channel_id + 1,
       securityMode = INVALID,
       timeoutId = None,
       transactionsCount = 0,
       clientNonce = None,
       revisedLifeTime = None,
       securityTokenTimeout = None,
       derivedKeys = None,
       clientSecurityHeader = None,
       clientCertificate = None,
       receiverCertificate = None,
       receiverPublicKey = None,
       receiverPublicKeyLength = 0,
       abort_has_been_called = False \<rparr>"

text \<open>The getter \<open>isOpened\<close> returns \<open>self.clientCertificate\<close>; a Buffer, even an empty
  one, is truthy, \<open>null\<close> and \<open>undefined\<close> are not.\<close>

definition isOpened :: "ServerSecureChannelLayer \<Rightarrow> bool" where
  "isOpened self = (clientCertificate self \<noteq> None)"

definition securityTokenCount :: "ServerSecureChannelLayer \<Rightarrow> nat" where
  "securityTokenCount self = lastTokenId self"

subsection \<open>Token manager\<close>

definition stop_security_token_watch_dog :: "ServerSecureChannelLayer \<Rightarrow> ServerSecureChannelLayer" where
  "stop_security_token_watch_dog self =
     (case securityTokenTimeout self of
        Some t \<Rightarrow> self\<lparr>securityTokenTimeout := None\<rparr>
      | None \<Rightarrow> self)"

definition start_security_token_watch_dog :: "env \<Rightarrow> ServerSecureChannelLayer \<Rightarrow> unit result" where
  "start_security_token_watch_dog e self =
     (case securityToken self of
        None \<Rightarrow> (Inl (TypeError ''self.securityToken.revisedLifeTime''), self)
      | Some tok \<Rightarrow>
          (Inr (), self\<lparr>securityTokenTimeout :=
                      Some \<lparr> armed_at = now e, delay = tok_revisedLifeTime tok * 120 / 100 \<rparr>\<rparr>))"

text \<open>
  The callback of the watchdog, run when the timer fires: two lines on the console, and
  the handle is cleared.
\<close>

definition security_token_watch_dog_fires :: "ServerSecureChannelLayer \<Rightarrow> ServerSecureChannelLayer" where
  "security_token_watch_dog_fires self = self\<lparr>securityTokenTimeout := None\<rparr>"

text \<open>
  \<open>_add_new_security_token\<close>. What the constructor of \<open>ChannelSecurityToken\<close> makes
  of a lifetime that was never set is outside this file; here the assertion on the
  lifetime fails. The handshake sets the lifetime before it asks for a token.
\<close>

definition add_new_security_token :: "env \<Rightarrow> ServerSecureChannelLayer \<Rightarrow> unit result" where
  "add_new_security_token e self =
     (let self1 = stop_security_token_watch_dog self;
          self2 = self1\<lparr>lastTokenId := lastTokenId self1 + 1\<rparr>
      in case revisedLifeTime self2 of
           None \<Rightarrow> (Inl (AssertionError ''_.isFinite(securityToken.revisedLifeTime)''), self2)
         | Some rl \<Rightarrow>
             (let tok = \<lparr> tok_secureChannelId = secureChannelId self2,
                          tokenId = lastTokenId self2,
                          createdAt = now e,
                          tok_revisedLifeTime = rl \<rparr>
              in if expired e tok
                 then (Inl (AssertionError ''!securityToken.expired''), self2)
                 else start_security_token_watch_dog e (self2\<lparr>securityToken := Some tok\<rparr>)))"

definition prepare_security_token :: "env \<Rightarrow> OpenSecureChannelRequest \<Rightarrow> ServerSecureChannelLayer \<Rightarrow> unit result" where
  "prepare_security_token e openSecureChannelRequest self =
     (let self1 = self\<lparr>securityToken := None\<rparr>;
          self2 = (if requestType openSecureChannelRequest = RENEW
                   then stop_security_token_watch_dog self1
                   else self1)
      in add_new_security_token e self2)"

definition set_lifetime :: "rat \<Rightarrow> ServerSecureChannelLayer \<Rightarrow> ServerSecureChannelLayer" where
  "set_lifetime requested self =
     (if requested = 0
      then self\<lparr>revisedLifeTime := Some (defaultSecureTokenLifetime self)\<rparr>
      else self\<lparr>revisedLifeTime := Some (min (defaultSecureTokenLifetime self) requested)\<rparr>)"

subsection \<open>Sequencing\<close>

text \<open>Run \<open>f\<close> on the value and the channel of \<open>r\<close>, unless \<open>r\<close> threw.\<close>

definition and_then :: "'a result \<Rightarrow> ('a \<Rightarrow> ServerSecureChannelLayer \<Rightarrow> 'b result) \<Rightarrow> 'b result" where
  "and_then r f = (case r of (Inl err, self) \<Rightarrow> (Inl err, self) | (Inr a, self) \<Rightarrow> f a self)"

subsection \<open>What the channel hands to its collaborators\<close>

text \<open>
  The options \<open>send_response\<close> gives the chunker. \<open>No_options\<close> is the empty object
  \<open>_get_security_options_for_OPN\<close> returns outside the signing modes, \<open>Null_options\<close> the
  \<open>null\<close> of \<open>_get_security_options_for_MSG\<close>; \<open>Asymmetric_options\<close> holds
  \<open>signatureLength\<close>, \<open>plainBlockSize\<close> and \<open>cipherBlockSize\<close>; \<open>Symmetric_options\<close>
  the arguments of \<open>getOptionsForSymmetricSignAndEncrypt\<close>.
\<close>

datatype security_options =
    No_options
  | Null_options
  | Asymmetric_options nat int nat
  | Symmetric_options MessageSecurityMode buffer

record chunk_options =
  co_requestId :: nat
  co_secureChannelId :: nat
  co_tokenId :: nat
  co_security :: security_options

text \<open>
  \<open>Transport_write\<close> stands for the chunks of one response, written to the transport
  until the chunker signals the end; \<open>Callback_called\<close> is a call of the callback given
  to \<open>init\<close>, with whether it received an \<open>Error\<close>. The transport's \<open>disconnect\<close> is
  taken to call back at once.
\<close>

datatype event =
    Transport_write MsgType chunk_options response
  | Emit_transaction_done
  | Transport_disconnect
  | Emit_abort
  | Emit_message message
  | Callback_called bool

subsection \<open>Certificates\<close>

definition getCertificateChain :: "ServerSecureChannelLayer \<Rightarrow> error + buffer" where
  "getCertificateChain self =
     (case parent self of
        None \<Rightarrow> Inl (AssertionError ''expecting a valid parent'')
      | Some p \<Rightarrow> Inr (certificateChain p))"

definition getSignatureLength :: "env \<Rightarrow> ServerSecureChannelLayer \<Rightarrow> error + nat" where
  "getSignatureLength e self =
     (case getCertificateChain self of
        Inl err \<Rightarrow> Inl err
      | Inr chain \<Rightarrow>
          (case split_der e chain of
             [] \<Rightarrow> Inl (TypeError ''exploreCertificate(undefined)'')
           | s # _ \<Rightarrow>
               (case exploreCertificate e s of
                  None \<Rightarrow> Inl (TypeError ''exploreCertificate'')
                | Some cert \<Rightarrow> Inr (publicKeyLength cert))))"

text \<open>
  \<open>_check_receiverCertificateThumbprint\<close>. The source also computes
  \<open>split_der(serverCertificateChain)[0]\<close> and does not use it: the digest is taken of
  the whole chain.
\<close>

definition check_receiverCertificateThumbprint ::
  "env \<Rightarrow> AsymmetricAlgorithmSecurityHeader option \<Rightarrow> ServerSecureChannelLayer \<Rightarrow> error + bool" where
  "check_receiverCertificateThumbprint e header self =
     (case header of
        None \<Rightarrow> Inl (TypeError ''clientSecurityHeader.receiverCertificateThumbprint'')
      | Some h \<Rightarrow>
          (case receiverCertificateThumbprint h of
             Some thumbprint \<Rightarrow>
               (case getCertificateChain self of
                  Inl err \<Rightarrow> Inl err
                | Inr serverCertificateChain \<Rightarrow>
                    Inr (toString_hex (makeSHA1Thumbprint e serverCertificateChain)
                           = toString_hex thumbprint))
           | None \<Rightarrow> Inr True))"

definition check_certificate_validity :: "env \<Rightarrow> buffer option \<Rightarrow> error + StatusCode" where
  "check_certificate_validity e certificate =
     (case certificate of
        None \<Rightarrow> Inr BadSecurityChecksFailed
      | Some c \<Rightarrow>
          (case exploreCertificate e c of
             None \<Rightarrow> Inl (TypeError ''exploreCertificate'')
           | Some cert \<Rightarrow>
               if notBefore cert > now e then Inr BadCertificateTimeInvalid
               else if notAfter cert \<le> now e then Inr BadCertificateTimeInvalid
               else Inr Good))"

definition isValidSecurityPolicy :: "SecurityPolicy \<Rightarrow> StatusCode" where
  "isValidSecurityPolicy securityPolicy =
     (case securityPolicy of
        Policy_None \<Rightarrow> Good
      | Basic128Rsa15 \<Rightarrow> Good
      | Basic256 \<Rightarrow> Good
      | Policy_Other \<Rightarrow> BadSecurityPolicyRejected)"

definition has_endpoint_for_security_mode_and_policy ::
  "ServerSecureChannelLayer \<Rightarrow> MessageSecurityMode \<Rightarrow> SecurityPolicy \<Rightarrow> bool" where
  "has_endpoint_for_security_mode_and_policy self mode policy =
     (case parent self of
        None \<Rightarrow> True
      | Some p \<Rightarrow> List.member (endpointDescriptions p) (mode, policy))"

definition process_certificates :: "env \<Rightarrow> message \<Rightarrow> ServerSecureChannelLayer \<Rightarrow> ServerSecureChannelLayer" where
  "process_certificates e m self =
     (let cert0 = (case msg_securityHeader m of Some h \<Rightarrow> senderCertificate h | None \<Rightarrow> None);
          cert = (case cert0 of Some c \<Rightarrow> if length c = 0 then None else Some c | None \<Rightarrow> None);
          self1 = self\<lparr>receiverPublicKey := None, receiverPublicKeyLength := 0,
                       receiverCertificate := cert\<rparr>
      in case cert of
           Some c \<Rightarrow>
             (case extractPublicKeyFromCertificate e c of
                Some (key, len) \<Rightarrow> self1\<lparr>receiverPublicKey := Some key, receiverPublicKeyLength := len\<rparr>
              | None \<Rightarrow> self1)
         | None \<Rightarrow> self1)"

subsection \<open>Closing\<close>

definition stop_open_channel_watch_dog :: "ServerSecureChannelLayer \<Rightarrow> ServerSecureChannelLayer" where
  "stop_open_channel_watch_dog self =
     (case timeoutId self of Some t \<Rightarrow> self\<lparr>timeoutId := None\<rparr> | None \<Rightarrow> self)"

definition cleanup_pending_timers :: "ServerSecureChannelLayer \<Rightarrow> ServerSecureChannelLayer" where
  "cleanup_pending_timers self =
     stop_open_channel_watch_dog (stop_security_token_watch_dog self)"

definition abort :: "ServerSecureChannelLayer \<Rightarrow> event list \<times> ServerSecureChannelLayer" where
  "abort self =
     (if abort_has_been_called self then ([], self)
      else ([Emit_abort], cleanup_pending_timers (self\<lparr>abort_has_been_called := True\<rparr>)))"

definition close :: "ServerSecureChannelLayer \<Rightarrow> event list \<times> ServerSecureChannelLayer" where
  "close self = (case abort self of (evs, self') \<Rightarrow> (Transport_disconnect # evs, self'))"

subsection \<open>The send path\<close>

definition get_security_options_for_OPN :: "env \<Rightarrow> ServerSecureChannelLayer \<Rightarrow> error + security_options" where
  "get_security_options_for_OPN e self =
     (if securityMode self = SIGN \<or> securityMode self = SIGNANDENCRYPT
      then (case cryptoFactory (messageBuilder self) of
              None \<Rightarrow> Inl (AssertionError ''ServerSecureChannelLayer must have a crypto strategy'')
            | Some cf \<Rightarrow>
                (case getSignatureLength e self of
                   Inl err \<Rightarrow> Inl err
                 | Inr signatureLength \<Rightarrow>
                     Inr (Asymmetric_options signatureLength
                            (int (receiverPublicKeyLength self) - int (blockPaddingSize cf))
                            (receiverPublicKeyLength self))))
      else Inr No_options)"

definition get_security_options_for_MSG :: "ServerSecureChannelLayer \<Rightarrow> error + security_options" where
  "get_security_options_for_MSG self =
     (if securityMode self = NONE then Inr Null_options
      else (case cryptoFactory (messageBuilder self) of
              None \<Rightarrow> Inr Null_options
            | Some cf \<Rightarrow>
                (case derivedKeys self of
                   None \<Rightarrow> Inl (TypeError ''self.derivedKeys.derivedServerKeys'')
                 | Some dk \<Rightarrow> Inr (Symmetric_options (securityMode self) (derivedServerKeys dk)))))"

text \<open>
  \<open>send_response\<close>, up to the moment the chunker has delivered its last chunk; the
  callback runs after that and is appended by each caller.
\<close>

definition send_response ::
  "env \<Rightarrow> MsgType \<Rightarrow> response \<Rightarrow> message \<Rightarrow> ServerSecureChannelLayer \<Rightarrow> event list result" where
  "send_response e msgType resp m self =
     (if msg_requestId m = 0 then (Inl (AssertionError ''requestId && requestId > 0''), self)
      else case securityToken self of
             None \<Rightarrow> (Inl (AssertionError ''self.securityToken''), self)
           | Some tok \<Rightarrow>
               (case (if msgType = OPN then get_security_options_for_OPN e self
                      else get_security_options_for_MSG self) of
                  Inl err \<Rightarrow> (Inl err, self)
                | Inr security_options \<Rightarrow>
                    (let opts = \<lparr> co_requestId = msg_requestId m,
                                   co_secureChannelId = tok_secureChannelId tok,
                                   co_tokenId = tokenId tok,
                                   co_security = security_options \<rparr>;
                         resp' = resp\<lparr>responseHeader :=
                                   (responseHeader resp)\<lparr>resp_requestHandle :=
                                      requestHandle (msg_request m)\<rparr>\<rparr>
                     in (Inr [Transport_write msgType opts resp', Emit_transaction_done],
                         self\<lparr>transactionsCount := transactionsCount self + 1\<rparr>))))"

text \<open>\<open>new ServiceFault({responseHeader: {serviceResult: statusCode}})\<close>\<close>

definition ServiceFault :: "StatusCode \<Rightarrow> response" where
  "ServiceFault statusCode =
     \<lparr> responseHeader = \<lparr> serviceResult = statusCode, resp_requestHandle = 0 \<rparr>,
       response_body = ServiceFault_body None \<rparr>"

definition send_error_and_abort ::
  "env \<Rightarrow> StatusCode \<Rightarrow> string \<Rightarrow> message \<Rightarrow> event list \<Rightarrow> ServerSecureChannelLayer \<Rightarrow> event list result" where
  "send_error_and_abort e statusCode description m callback self =
     (if msg_requestId m = 0
      then (Inl (AssertionError ''message.requestId && message.requestId > 0''), self)
      else and_then
             (send_response e MSG
                ((ServiceFault statusCode)\<lparr>response_body := ServiceFault_body (Some description)\<rparr>)
                m self)
             (\<lambda>sent self1. case close self1 of (closing, self2) \<Rightarrow>
                               (Inr (sent @ closing @ callback), self2)))"

definition send_error ::
  "env \<Rightarrow> StatusCode \<Rightarrow> string \<Rightarrow> message \<Rightarrow> ServerSecureChannelLayer \<Rightarrow> event list result" where
  "send_error e statusCode description m self =
     send_error_and_abort e statusCode description m [Callback_called True]
       (self\<lparr>securityMode := NONE\<rparr>)"

subsection \<open>The OpenSecureChannel handshake\<close>

text \<open>
  Lines 826 to 851 of \<open>_handle_OpenSecureChannelRequest\<close>: with a crypto factory, draw
  the server nonce, compare the lengths of the two nonces, compute the derived keys.
  The value is the \<open>serviceResult\<close> the response starts with.
\<close>

definition compute_nonce_and_keys :: "env \<Rightarrow> ServerSecureChannelLayer \<Rightarrow> StatusCode result" where
  "compute_nonce_and_keys e self =
     (case cryptoFactory (messageBuilder self) of
        None \<Rightarrow> (Inr Good, self)
      | Some cf \<Rightarrow>
          (let sn = randomBytes e (symmetricKeyLength cf);
               self1 = self\<lparr>serverNonce := Some sn\<rparr>
           in case clientNonce self1 of
                None \<Rightarrow> (Inl (TypeError ''self.clientNonce.length''), self1)
              | Some cn \<Rightarrow>
                  (Inr (if length cn \<noteq> length sn then BadSecurityModeRejected else Good),
                   self1\<lparr>derivedKeys := Some (compute_derived_keys cf sn cn)\<rparr>)))"

text \<open>
  Modelled from the spec: \<open>messageBuilder.pushNewToken\<close>, a method of the message builder
  (lib/misc/message_builder, not in this file), called at line 854: "Install new inbound
  token on the Message Builder with the derived client keys". The builder holds the token
  and its keys on top of those it was handed before.
\<close>

definition pushNewToken ::
  "ChannelSecurityToken option \<Rightarrow> buffer option \<Rightarrow> ServerSecureChannelLayer \<Rightarrow> ServerSecureChannelLayer" where
  "pushNewToken tok keys self =
     self\<lparr>messageBuilder :=
            (messageBuilder self)\<lparr>tokenStack := tokenStack (messageBuilder self) @ [(tok, keys)]\<rparr>\<rparr>"

definition None_header :: AsymmetricAlgorithmSecurityHeader where
  "None_header =
     \<lparr> securityPolicyUri = None_URI, senderCertificate = None,
       receiverCertificateThumbprint = None \<rparr>"

definition prepare_security_header ::
  "env \<Rightarrow> OpenSecureChannelRequest \<Rightarrow> message \<Rightarrow> ServerSecureChannelLayer
     \<Rightarrow> error + AsymmetricAlgorithmSecurityHeader option" where
  "prepare_security_header e request m self =
     (case req_securityMode request of
        NONE \<Rightarrow>
          (case msg_securityHeader m of
             None \<Rightarrow> Inr (Some None_header)
           | Some h \<Rightarrow>
               if securityPolicyUri h = None_URI then Inr (Some None_header)
               else Inl (AssertionError ''securityPolicyUri === SecurityPolicy#None''))
      | INVALID \<Rightarrow> Inr None
      | _ \<Rightarrow> \<comment> \<open>\<open>SIGN\<close> and \<open>SIGNANDENCRYPT\<close>\<close>
          (let thumbprint = (case receiverCertificate self of
                               Some c \<Rightarrow> Some (makeSHA1Thumbprint e c)
                             | None \<Rightarrow> None)
           in case clientSecurityHeader self of
                None \<Rightarrow> Inl (TypeError ''self.clientSecurityHeader.securityPolicyUri'')
              | Some h \<Rightarrow>
                  (case getCertificateChain self of
                     Inl err \<Rightarrow> Inl err
                   | Inr chain \<Rightarrow>
                       Inr (Some \<lparr> securityPolicyUri = securityPolicyUri h,
                                   senderCertificate = Some chain,
                                   receiverCertificateThumbprint = thumbprint \<rparr>))))"

text \<open>
  Lines 856 to 870: the header is stored, asserted to be there, and given to the chunker
  with the derived server keys.
\<close>

definition install_security_header ::
  "env \<Rightarrow> OpenSecureChannelRequest \<Rightarrow> message \<Rightarrow> ServerSecureChannelLayer \<Rightarrow> unit result" where
  "install_security_header e request m self =
     (case prepare_security_header e request m self of
        Inl err \<Rightarrow> (Inl err, self)
      | Inr None \<Rightarrow> (Inl (AssertionError ''self.securityHeader''), self\<lparr>securityHeader := None\<rparr>)
      | Inr (Some h) \<Rightarrow>
          (Inr (),
           self\<lparr>securityHeader := Some h,
                messageChunker :=
                  \<lparr> mc_securityHeader = Some h,
                    mc_derivedKeys = map_option derivedServerKeys (derivedKeys self) \<rparr>\<rparr>))"

definition OpenSecureChannelResponse :: "StatusCode \<Rightarrow> ServerSecureChannelLayer \<Rightarrow> response" where
  "OpenSecureChannelResponse result self =
     \<lparr> responseHeader = \<lparr> serviceResult = result, resp_requestHandle = 0 \<rparr>,
       response_body =
         OpenSecureChannelResponse_body (protocolVersion self) (securityToken self) (serverNonce self) \<rparr>"

text \<open>
  Lines 872 to 905: the response, the cached client certificate, the thumbprint check in
  the signing modes, the validity window of the client certificate.
\<close>

definition build_response ::
  "env \<Rightarrow> message \<Rightarrow> StatusCode \<Rightarrow> ServerSecureChannelLayer \<Rightarrow> response result" where
  "build_response e m result self =
     (let response0 = OpenSecureChannelResponse result self;
          self1 = self\<lparr>clientCertificate :=
                        (case msg_securityHeader m of
                           Some h \<Rightarrow> senderCertificate h
                         | None \<Rightarrow> None)\<rparr>
      in case (if securityMode self1 \<noteq> NONE
               then check_receiverCertificateThumbprint e (clientSecurityHeader self1) self1
               else Inr True) of
           Inl err \<Rightarrow> (Inl err, self1)
         | Inr thumbprint_ok \<Rightarrow>
             (let response1 =
                    (if thumbprint_ok then response0
                     else response0\<lparr>responseHeader :=
                            (responseHeader response0)\<lparr>serviceResult := BadCertificateInvalid\<rparr>\<rparr>)
              in case clientCertificate self1 of
                   None \<Rightarrow> (Inr response1, self1)
                 | Some c \<Rightarrow>
                     (case check_certificate_validity e (Some c) of
                        Inl err \<Rightarrow> (Inl err, self1)
                      | Inr certificate_status \<Rightarrow>
                          if certificate_status \<noteq> Good
                          then (Inr (ServiceFault certificate_status), self1)
                          else (Inr response1, self1))))"

text \<open>
  Line 907 to the end: the response is sent; when the chunker is done the callback closes
  the channel if the response does not carry \<open>Good\<close>, then calls the caller's callback.
\<close>

definition send_and_close_unless_Good ::
  "env \<Rightarrow> message \<Rightarrow> event list \<Rightarrow> response \<Rightarrow> ServerSecureChannelLayer \<Rightarrow> event list result" where
  "send_and_close_unless_Good e m callback resp self =
     and_then (send_response e OPN resp m self)
       (\<lambda>sent self1.
          if serviceResult (responseHeader resp) \<noteq> Good
          then (case close self1 of (closing, self2) \<Rightarrow> (Inr (sent @ closing @ callback), self2))
          else (Inr (sent @ callback), self1))"

definition handle_OpenSecureChannelRequest ::
  "env \<Rightarrow> message \<Rightarrow> event list \<Rightarrow> ServerSecureChannelLayer \<Rightarrow> event list result" where
  "handle_OpenSecureChannelRequest e m callback self =
     (case request_body (msg_request m) of
        OpenSecureChannelRequest_body request \<Rightarrow>
          if msg_requestId m = 0 then (Inl (AssertionError ''requestId && requestId > 0''), self)
          else
            and_then (prepare_security_token e request
                        (set_lifetime (requestedLifetime request)
                           (self\<lparr>clientNonce := req_clientNonce request\<rparr>)))
            (\<lambda>_ self1. and_then (compute_nonce_and_keys e self1)
            (\<lambda>result self2. and_then
                (install_security_header e request m
                   (pushNewToken (securityToken self2)
                      (map_option derivedClientKeys (derivedKeys self2)) self2))
            (\<lambda>_ self3. and_then (build_response e m result self3)
            (\<lambda>resp self4. send_and_close_unless_Good e m callback resp self4))))
      | _ \<Rightarrow> (Inl (AssertionError ''request._schema.name === OpenSecureChannelRequest''), self))"

subsection \<open>Dispatch\<close>

text \<open>
  \<open>_on_common_message\<close>, the handler of every message after the first. The message it
  builds has no \<open>securityHeader\<close>.
\<close>

definition on_common_message ::
  "env \<Rightarrow> request \<Rightarrow> MsgType \<Rightarrow> ServerSecureChannelLayer \<Rightarrow> event list result" where
  "on_common_message e req msgType self =
     (let m = \<lparr> msg_request = req, msg_securityHeader = None,
                msg_requestId = sequenceHeader_requestId (messageBuilder self) \<rparr>
      in case request_body req of
           CloseSecureChannelRequest_body \<Rightarrow>
             (case close self of (closing, self1) \<Rightarrow> (Inr closing, self1))
         | OpenSecureChannelRequest_body _ \<Rightarrow>
             if msgType = OPN then handle_OpenSecureChannelRequest e m [] self
             else (Inr [Emit_message m], self)
         | Other_request_body \<Rightarrow> (Inr [Emit_message m], self))"

text \<open>\<open>_on_initial_OpenSecureChannelRequest\<close>, the handler of the first message.\<close>

definition on_initial_OpenSecureChannelRequest ::
  "env \<Rightarrow> message \<Rightarrow> ServerSecureChannelLayer \<Rightarrow> event list result" where
  "on_initial_OpenSecureChannelRequest e m self =
     (if msg_requestId m = 0 then (Inl (AssertionError ''requestId > 0''), self)
      else case request_body (msg_request m) of
        OpenSecureChannelRequest_body request \<Rightarrow>
          (case msg_securityHeader m of
             None \<Rightarrow> (Inl (TypeError ''message.securityHeader.securityPolicyUri''), self)
           | Some h \<Rightarrow>
               (let securityPolicy = fromURI e (securityPolicyUri h);
                    check_security_policy = isValidSecurityPolicy securityPolicy
                in if check_security_policy \<noteq> Good
                   then send_error e check_security_policy
                          ('' Unsupported securityPolicyUri '' @ securityPolicyUri h) m self
                   else
                     (let self1 = self\<lparr>securityMode := req_securityMode request,
                                        messageBuilder :=
                                          (messageBuilder self)\<lparr>mb_securityMode :=
                                             req_securityMode request\<rparr>\<rparr>
                      in if \<not> has_endpoint_for_security_mode_and_policy self1
                                (securityMode self1) securityPolicy
                         then send_error e BadSecurityPolicyRejected
                                '' This server doesn't not support '' m self1
                         else handle_OpenSecureChannelRequest e m [Callback_called False]
                                (process_certificates e m self1))))
      | _ \<Rightarrow> send_error e BadCommunicationError ''Expecting OpenSecureChannelRequest'' m self)"

text \<open>
  \<open>_on_initial_open_secure_channel_request\<close>: what the message builder's first
  \<open>message\<close> event runs.
\<close>

definition on_initial_open_secure_channel_request ::
  "env \<Rightarrow> request \<Rightarrow> ServerSecureChannelLayer \<Rightarrow> event list result" where
  "on_initial_open_secure_channel_request e req self =
     (let self1 = self\<lparr>timeoutId := None\<rparr>;
          requestId = sequenceHeader_requestId (messageBuilder self1)
      in if requestId = 0 then (Inl (AssertionError ''requestId > 0''), self1)
         else
           (let m = \<lparr> msg_request = req,
                      msg_securityHeader = mb_securityHeader (messageBuilder self1),
                      msg_requestId = requestId \<rparr>
            in on_initial_OpenSecureChannelRequest e m
                 (self1\<lparr>clientSecurityHeader := msg_securityHeader m\<rparr>)))"

subsection \<open>What the later steps of a handshake leave alone\<close>

definition kept :: "ServerSecureChannelLayer \<Rightarrow> ServerSecureChannelLayer \<Rightarrow> bool" where
  "kept s s' \<longleftrightarrow>
     parent s' = parent s \<and> securityToken s' = securityToken s \<and>
     lastTokenId s' = lastTokenId s \<and>
     defaultSecureTokenLifetime s' = defaultSecureTokenLifetime s \<and>
     secureChannelId s' = secureChannelId s \<and> securityMode s' = securityMode s \<and>
     clientSecurityHeader s' = clientSecurityHeader s \<and>
     receiverCertificate s' = receiverCertificate s \<and>
     cryptoFactory (messageBuilder s') = cryptoFactory (messageBuilder s) \<and>
     protocolVersion s' = protocolVersion s"

definition kept_keys :: "ServerSecureChannelLayer \<Rightarrow> ServerSecureChannelLayer \<Rightarrow> bool" where
  "kept_keys s s' \<longleftrightarrow> serverNonce s' = serverNonce s \<and> derivedKeys s' = derivedKeys s"

subsection \<open>Inbound tokens of the message builder\<close>

text \<open>
  The channel keeps one token, the one it stamps on what it sends; which tokens are
  accepted on what it receives is the message builder's business, and the builder
  (lib/misc/message_builder) is not in this file. This file hands the builder every
  token it issues (\<open>pushNewToken\<close>) and never takes one back. What the builder does with
  them is taken from the spec, which says: "Previous token is retained until either (a)
  its lifetime elapses, or (b) a client message arrives signed with the new token", an
  inbound message "carries that tokenId or the immediately previous one during a renewal
  grace window", and \<open>revisedLifeTime\<close> is "milliseconds; the lifetime actually granted to
  the client", counted from \<open>createdAt\<close>.
\<close>







subsection \<open>Runs of OpenSecureChannel requests\<close>

text \<open>
  A run of requests through \<open>_handle_OpenSecureChannelRequest\<close>, each with the
  environment it meets; the run stops at the first exception. The value is the list of
  the tokens the channel holds after each request, oldest first.
\<close>

fun handle_all ::
  "ServerSecureChannelLayer \<Rightarrow> (env \<times> message) list \<Rightarrow> error + ChannelSecurityToken list" where
  "handle_all self [] = Inr []"
| "handle_all self ((e, m) # rest) =
     (case handle_OpenSecureChannelRequest e m [] self of
        (Inl err, _) \<Rightarrow> Inl err
      | (Inr _, self1) \<Rightarrow>
          (case handle_all self1 rest of
             Inl err \<Rightarrow> Inl err
           | Inr toks \<Rightarrow>
               Inr ((case securityToken self1 of Some tok \<Rightarrow> [tok] | None \<Rightarrow> []) @ toks)))"

subsection \<open>Reading a run\<close>

text \<open>
  Whether a handler returned, the events it produced, the responses among them, the
  response a run starts with, and whether the transport is disconnected as soon as that
  response has been flushed.
\<close>

definition returned :: "'a result \<Rightarrow> bool" where
  "returned r = (case fst r of Inr _ \<Rightarrow> True | Inl _ \<Rightarrow> False)"

definition events_of :: "event list result \<Rightarrow> event list" where
  "events_of r = (case fst r of Inr evs \<Rightarrow> evs | Inl _ \<Rightarrow> [])"

fun responses_written :: "event list \<Rightarrow> response list" where
  "responses_written [] = []"
| "responses_written (Transport_write t opts r # evs) = r # responses_written evs"
| "responses_written (_ # evs) = responses_written evs"

fun first_response :: "event list \<Rightarrow> response option" where
  "first_response (Transport_write t opts r # Emit_transaction_done # rest) = Some r"
| "first_response _ = None"

fun closes_after_response :: "event list \<Rightarrow> bool" where
  "closes_after_response (Transport_write t opts r # Emit_transaction_done # Transport_disconnect # rest) = True"
| "closes_after_response _ = False"

subsection \<open>A concrete server and its clients\<close>

text \<open>
  Stand-ins for the collaborators, to run the handlers on: a digest that keeps the first
  twenty bytes, a chain splitter for chains of one certificate, certificates whose first
  byte tells whether they have expired, and a key derivation that concatenates the nonces.
\<close>

definition Basic128Rsa15_URI :: string where
  "Basic128Rsa15_URI = ''http://opcfoundation.org/UA/SecurityPolicy#Basic128Rsa15''"

definition demo_env :: env where
  "demo_env =
     \<lparr> now = 1000000,
       entropy = (\<lambda>i. of_nat i),
       makeSHA1Thumbprint = (\<lambda>b. take 20 (b @ replicate 20 0)),
       split_der = (\<lambda>b. [b]),
       exploreCertificate =
         (\<lambda>c. case c of
                [] \<Rightarrow> None
              | x # _ \<Rightarrow> Some \<lparr> notBefore = 0,
                                 notAfter = (if x = 0 then 500 else 2000000),
                                 publicKeyLength = 128 \<rparr>),
       extractPublicKeyFromCertificate = (\<lambda>c. Some (c, 128)),
       fromURI =
         (\<lambda>u. if u = None_URI then Policy_None
              else if u = Basic128Rsa15_URI then Basic128Rsa15
              else Policy_Other),
       expired = (\<lambda>tok. False) \<rparr>"

definition demo_cryptoFactory :: CryptoFactory where
  "demo_cryptoFactory =
     \<lparr> symmetricKeyLength = 16,
       blockPaddingSize = 11,
       compute_derived_keys =
         (\<lambda>sn cn. \<lparr> derivedClientKeys = cn @ sn, derivedServerKeys = sn @ cn \<rparr>) \<rparr>"

definition demo_parent :: OPCUAServerEndPoint where
  "demo_parent =
     \<lparr> certificateChain = [1, 2, 3],
       privateKey = [9],
       endpointDescriptions = [(NONE, Policy_None), (SIGN, Basic128Rsa15)] \<rparr>"

definition demo_channel :: ServerSecureChannelLayer where
  "demo_channel =
     constructor 0 \<lparr> opt_parent = Some demo_parent, opt_timeout = None,
                     opt_defaultSecureTokenLifetime = None \<rparr>"

text \<open>
  What the message builder has set when it emits a decoded message: the security header
  and the request id it read, and the crypto factory of the policy.
\<close>

definition builder_decoded ::
  "AsymmetricAlgorithmSecurityHeader option \<Rightarrow> CryptoFactory option \<Rightarrow> nat
     \<Rightarrow> ServerSecureChannelLayer \<Rightarrow> ServerSecureChannelLayer" where
  "builder_decoded h cf requestId self =
     self\<lparr>messageBuilder :=
            (messageBuilder self)\<lparr>mb_securityHeader := h, cryptoFactory := cf,
                                   sequenceHeader_requestId := requestId\<rparr>\<rparr>"

definition open_request ::
  "MessageSecurityMode \<Rightarrow> buffer option \<Rightarrow> rat \<Rightarrow> SecurityTokenRequestType \<Rightarrow> request" where
  "open_request mode nonce lifetime t =
     \<lparr> requestHandle = 77,
       request_body = OpenSecureChannelRequest_body
         \<lparr> req_securityMode = mode, req_clientNonce = nonce,
           requestedLifetime = lifetime, requestType = t \<rparr> \<rparr>"

text \<open>
  A client without security (policy None, mode None, no certificate, no nonce): its
  header, the request that opens the channel, the channel when that request arrives and when
  it has been answered, and the same for a renewal half a second later and for a second one.
\<close>

definition none_client_header :: AsymmetricAlgorithmSecurityHeader where
  "none_client_header = None_header"

definition none_open :: request where
  "none_open = open_request NONE None 0 ISSUE"

definition none_renew :: request where
  "none_renew = open_request NONE None 300000 RENEW"

definition none_channel :: ServerSecureChannelLayer where
  "none_channel = builder_decoded (Some none_client_header) None 1 demo_channel"

definition opened_none_channel :: ServerSecureChannelLayer where
  "opened_none_channel =
     snd (on_initial_open_secure_channel_request demo_env
            none_open none_channel)"

definition later_env :: env where
  "later_env = demo_env\<lparr>now := 1500000\<rparr>"

definition none_channel_2 :: ServerSecureChannelLayer where
  "none_channel_2 = builder_decoded (Some none_client_header) None 2 opened_none_channel"

definition renewed_once :: ServerSecureChannelLayer where
  "renewed_once =
     snd (on_common_message later_env none_renew OPN
            none_channel_2)"

definition none_channel_3 :: ServerSecureChannelLayer where
  "none_channel_3 = builder_decoded (Some none_client_header) None 3 renewed_once"

definition renewed_twice :: ServerSecureChannelLayer where
  "renewed_twice =
     snd (on_common_message (demo_env\<lparr>now := 1600000\<rparr>) none_renew OPN
            none_channel_3)"

text \<open>
  The same client seen by \<open>_handle_OpenSecureChannelRequest\<close> alone: the channel as
  \<open>_on_initial_OpenSecureChannelRequest\<close> leaves it, and the two messages.
\<close>

definition demo_none_channel :: ServerSecureChannelLayer where
  "demo_none_channel =
     demo_channel\<lparr>securityMode := NONE, clientSecurityHeader := Some none_client_header\<rparr>"

definition issue_message :: message where
  "issue_message =
     \<lparr> msg_request = open_request NONE None 0 ISSUE,
       msg_securityHeader = Some none_client_header, msg_requestId = 1 \<rparr>"

definition renew_message :: message where
  "renew_message =
     \<lparr> msg_request = open_request NONE None 300000 RENEW,
       msg_securityHeader = None, msg_requestId = 2 \<rparr>"

text \<open>
  A signing client: its certificate \<open>[7, 7]\<close> is within its validity window, it names
  the server certificate by the digest of \<open>[1, 2, 3]\<close>, and its nonce has the sixteen
  bytes the policy asks for. It opens the channel and renews the token; or it sends a nonce
  of three bytes, in its first request or in the renewal.
\<close>

definition sign_client_header :: "buffer option \<Rightarrow> buffer option \<Rightarrow> AsymmetricAlgorithmSecurityHeader" where
  "sign_client_header cert thumbprint =
     \<lparr> securityPolicyUri = Basic128Rsa15_URI,
       senderCertificate = cert,
       receiverCertificateThumbprint = thumbprint \<rparr>"

definition server_thumbprint :: buffer where
  "server_thumbprint = [1, 2, 3] @ replicate 17 0"

definition nonce16 :: buffer where
  "nonce16 = map of_nat [100..<116]"

definition sign_open :: request where
  "sign_open = open_request SIGN (Some nonce16) 0 ISSUE"

definition sign_renew :: request where
  "sign_renew = open_request SIGN (Some nonce16) 0 RENEW"

definition short_nonce_open :: request where
  "short_nonce_open = open_request SIGN (Some [1, 2, 3]) 0 ISSUE"

definition short_nonce_renew :: request where
  "short_nonce_renew = open_request SIGN (Some [1, 2, 3]) 0 RENEW"

definition sign_channel :: ServerSecureChannelLayer where
  "sign_channel =
     builder_decoded (Some (sign_client_header (Some [7, 7]) (Some server_thumbprint)))
       (Some demo_cryptoFactory) 1 demo_channel"

definition opened_sign_channel :: ServerSecureChannelLayer where
  "opened_sign_channel =
     snd (on_initial_open_secure_channel_request demo_env
            sign_open sign_channel)"

definition sign_channel_2 :: ServerSecureChannelLayer where
  "sign_channel_2 =
     builder_decoded (Some (sign_client_header (Some [7, 7]) (Some server_thumbprint)))
       (Some demo_cryptoFactory) 2 opened_sign_channel"

definition renewed_sign_channel :: ServerSecureChannelLayer where
  "renewed_sign_channel =
     snd (on_common_message later_env sign_renew OPN
            sign_channel_2)"

definition short_nonce_renewal :: message where
  "short_nonce_renewal =
     \<lparr> msg_request = open_request SIGN (Some [1, 2, 3]) 0 RENEW,
       msg_securityHeader = None, msg_requestId = 2 \<rparr>"

text \<open>
  Signing clients that name the server certificate by twenty bytes \<open>0xAA\<close>, one of them
  with a certificate that has expired, and one that names no server certificate at all.
\<close>

definition wrong_thumbprint :: buffer where
  "wrong_thumbprint = replicate 20 0xAA"

definition wrong_thumbprint_channel :: ServerSecureChannelLayer where
  "wrong_thumbprint_channel =
     builder_decoded (Some (sign_client_header (Some [7, 7]) (Some wrong_thumbprint)))
       (Some demo_cryptoFactory) 1 demo_channel"

definition expired_certificate_channel :: ServerSecureChannelLayer where
  "expired_certificate_channel =
     builder_decoded (Some (sign_client_header (Some [0, 7]) (Some wrong_thumbprint)))
       (Some demo_cryptoFactory) 1 demo_channel"

definition no_thumbprint_channel :: ServerSecureChannelLayer where
  "no_thumbprint_channel =
     builder_decoded (Some (sign_client_header (Some [7, 7]) None))
       (Some demo_cryptoFactory) 1 demo_channel"

text \<open>
  The message \<open>_on_initial_open_secure_channel_request\<close> builds from the first request,
  and the channel as \<open>_on_initial_OpenSecureChannelRequest\<close> hands it to
  \<open>_handle_OpenSecureChannelRequest\<close> once policy and endpoint have been accepted.
\<close>

definition first_message :: "request \<Rightarrow> ServerSecureChannelLayer \<Rightarrow> message" where
  "first_message req self =
     \<lparr> msg_request = req,
       msg_securityHeader = mb_securityHeader (messageBuilder self),
       msg_requestId = sequenceHeader_requestId (messageBuilder self) \<rparr>"

definition handshake_channel ::
  "env \<Rightarrow> request \<Rightarrow> MessageSecurityMode \<Rightarrow> ServerSecureChannelLayer \<Rightarrow> ServerSecureChannelLayer" where
  "handshake_channel e req mode self =
     process_certificates e (first_message req self)
       (self\<lparr>timeoutId := None,
             clientSecurityHeader := mb_securityHeader (messageBuilder self),
             securityMode := mode,
             messageBuilder := (messageBuilder self)\<lparr>mb_securityMode := mode\<rparr>\<rparr>)"

text \<open>
  A request of the session layer with its response, and a clock past the time at which
  the watchdog of token 1 fires.
\<close>

definition read_message :: message where
  "read_message =
     \<lparr> msg_request = \<lparr> requestHandle = 42, request_body = Other_request_body \<rparr>,
       msg_securityHeader = None, msg_requestId = 5 \<rparr>"

definition read_response :: response where
  "read_response =
     \<lparr> responseHeader = \<lparr> serviceResult = Good, resp_requestHandle = 0 \<rparr>,
       response_body = Other_response_body ''ReadResponse'' \<rparr>"

definition after_expiry_env :: env where
  "after_expiry_env = demo_env\<lparr>now := 1800000\<rparr>"

section \<open>Properties\<close>

subsection \<open>The steps of the handshake\<close>

lemma and_then_Inr:
  "and_then r f = (Inr b, s') \<longleftrightarrow> (\<exists>a s. r = (Inr a, s) \<and> f a s = (Inr b, s'))"
  by (cases r; cases "fst r") (auto simp: and_then_def)

lemma stop_security_token_watch_dog_eq:
  "stop_security_token_watch_dog s = s\<lparr>securityTokenTimeout := None\<rparr>"
  by (simp add: stop_security_token_watch_dog_def split: option.splits)

lemma stop_open_channel_watch_dog_eq:
  "stop_open_channel_watch_dog s = s\<lparr>timeoutId := None\<rparr>"
  by (simp add: stop_open_channel_watch_dog_def split: option.splits)

lemma prepare_security_token_Inr:
  assumes "prepare_security_token e req s = (Inr u, s')"
  shows "\<exists>rl. revisedLifeTime s = Some rl \<and>
           s' = s\<lparr>securityToken := Some \<lparr> tok_secureChannelId = secureChannelId s,
                                         tokenId = lastTokenId s + 1, createdAt = now e,
                                         tok_revisedLifeTime = rl \<rparr>,
                  lastTokenId := lastTokenId s + 1,
                  securityTokenTimeout := Some \<lparr> armed_at = now e, delay = rl * 120 / 100 \<rparr>\<rparr>"
  using assms
  by (auto simp: prepare_security_token_def add_new_security_token_def Let_def
        stop_security_token_watch_dog_eq start_security_token_watch_dog_def
      split: option.splits if_splits)

lemma compute_nonce_and_keys_kept:
  "compute_nonce_and_keys e s = (r, s') \<Longrightarrow> kept s s'"
  by (auto simp: compute_nonce_and_keys_def kept_def Let_def split: option.splits)

lemma pushNewToken_kept: "kept s (pushNewToken t k s)"
  by (simp add: pushNewToken_def kept_def)

lemma install_security_header_kept:
  "install_security_header e req m s = (r, s') \<Longrightarrow> kept s s'"
  by (auto simp: install_security_header_def kept_def split: sum.splits option.splits)

lemma build_response_kept:
  "build_response e m res s = (r, s') \<Longrightarrow> kept s s'"
  by (auto simp: build_response_def kept_def Let_def split: sum.splits option.splits if_splits)

lemma send_response_Inr:
  assumes "send_response e t resp m s = (Inr evs, s')"
  shows "\<exists>opts. evs = [Transport_write t opts
                         (resp\<lparr>responseHeader := (responseHeader resp)\<lparr>resp_requestHandle :=
                                  requestHandle (msg_request m)\<rparr>\<rparr>),
                       Emit_transaction_done] \<and>
                s' = s\<lparr>transactionsCount := transactionsCount s + 1\<rparr> \<and>
                msg_requestId m \<noteq> 0 \<and> co_requestId opts = msg_requestId m"
  using assms
  by (auto simp: send_response_def Let_def split: sum.splits option.splits if_splits)

lemma send_response_kept:
  "send_response e t resp m s = (r, s') \<Longrightarrow> kept s s'"
  by (auto simp: send_response_def kept_def Let_def split: sum.splits option.splits if_splits)

lemma close_eq:
  "close s = (Transport_disconnect # (if abort_has_been_called s then [] else [Emit_abort]),
              if abort_has_been_called s then s
              else s\<lparr>abort_has_been_called := True, securityTokenTimeout := None, timeoutId := None\<rparr>)"
  by (simp add: close_def abort_def cleanup_pending_timers_def
      stop_security_token_watch_dog_eq stop_open_channel_watch_dog_eq)

lemma close_kept: "close s = (evs, s') \<Longrightarrow> kept s s'"
  by (auto simp: close_eq kept_def split: if_splits)

lemma close_aborted: "close s = (evs, s') \<Longrightarrow> abort_has_been_called s'"
  by (auto simp: close_eq split: if_splits)

lemma kept_refl: "kept a a"
  by (simp add: kept_def)

lemma kept_trans: "kept a b \<Longrightarrow> kept b c \<Longrightarrow> kept a c"
  by (simp add: kept_def)

lemma send_and_close_unless_Good_Inr:
  assumes "send_and_close_unless_Good e m cb resp s = (Inr evs, s')"
  shows "\<exists>opts. evs = [Transport_write OPN opts
                         (resp\<lparr>responseHeader := (responseHeader resp)\<lparr>resp_requestHandle :=
                                  requestHandle (msg_request m)\<rparr>\<rparr>),
                       Emit_transaction_done]
                      @ (if serviceResult (responseHeader resp) = Good then []
                         else Transport_disconnect #
                              (if abort_has_been_called s then [] else [Emit_abort]))
                      @ cb \<and>
                (serviceResult (responseHeader resp) \<noteq> Good \<longrightarrow> abort_has_been_called s') \<and>
                (serviceResult (responseHeader resp) = Good \<longrightarrow>
                   abort_has_been_called s' = abort_has_been_called s) \<and>
                kept s s' \<and> clientCertificate s' = clientCertificate s"
proof -
  from assms obtain sent s1 where
    sent: "send_response e OPN resp m s = (Inr sent, s1)" and
    rest: "(if serviceResult (responseHeader resp) \<noteq> Good
            then (case close s1 of (closing, s2) \<Rightarrow> (Inr (sent @ closing @ cb), s2))
            else (Inr (sent @ cb), s1)) = ((Inr evs, s') :: event list result)"
    by (auto simp: send_and_close_unless_Good_def and_then_Inr)
  from send_response_Inr [OF sent] obtain opts where
    evs1: "sent = [Transport_write OPN opts
                    (resp\<lparr>responseHeader := (responseHeader resp)\<lparr>resp_requestHandle :=
                             requestHandle (msg_request m)\<rparr>\<rparr>),
                  Emit_transaction_done]" and
    s1: "s1 = s\<lparr>transactionsCount := transactionsCount s + 1\<rparr>"
    by blast
  show ?thesis
  proof (cases "serviceResult (responseHeader resp) = Good")
    case True
    with rest have "evs = sent @ cb" "s' = s1" by simp_all
    with True evs1 s1 show ?thesis by (simp add: kept_def)
  next
    case False
    with rest have "evs = sent @ fst (close s1) @ cb" "s' = snd (close s1)"
      by (simp_all split: prod.splits)
    with False evs1 s1 show ?thesis by (simp add: close_eq kept_def)
  qed
qed

lemma handle_OpenSecureChannelRequest_Inr:
  assumes "handle_OpenSecureChannelRequest e m cb s = (Inr evs, s')"
  obtains request s1 result s2 s3 resp s4 where
    "request_body (msg_request m) = OpenSecureChannelRequest_body request"
    "msg_requestId m \<noteq> 0"
    "prepare_security_token e request
       (set_lifetime (requestedLifetime request) (s\<lparr>clientNonce := req_clientNonce request\<rparr>))
     = (Inr (), s1)"
    "compute_nonce_and_keys e s1 = (Inr result, s2)"
    "install_security_header e request m
       (pushNewToken (securityToken s2) (map_option derivedClientKeys (derivedKeys s2)) s2)
     = (Inr (), s3)"
    "build_response e m result s3 = (Inr resp, s4)"
    "send_and_close_unless_Good e m cb resp s4 = (Inr evs, s')"
  using assms
  by (auto simp: handle_OpenSecureChannelRequest_def and_then_Inr
      split: request_body.splits if_splits)

lemma handle_OpenSecureChannelRequest_token:
  assumes "handle_OpenSecureChannelRequest e m cb s = (Inr evs, s')"
  shows "\<exists>request.
           request_body (msg_request m) = OpenSecureChannelRequest_body request \<and>
           securityToken s' =
             Some \<lparr> tok_secureChannelId = secureChannelId s,
                    tokenId = lastTokenId s + 1,
                    createdAt = now e,
                    tok_revisedLifeTime =
                      (if requestedLifetime request = 0 then defaultSecureTokenLifetime s
                       else min (defaultSecureTokenLifetime s) (requestedLifetime request)) \<rparr> \<and>
           lastTokenId s' = lastTokenId s + 1 \<and>
           defaultSecureTokenLifetime s' = defaultSecureTokenLifetime s \<and>
           secureChannelId s' = secureChannelId s \<and>
           parent s' = parent s \<and> securityMode s' = securityMode s \<and>
           clientSecurityHeader s' = clientSecurityHeader s"
proof -
  from assms obtain request s1 result s2 s3 resp s4 where
    body: "request_body (msg_request m) = OpenSecureChannelRequest_body request" and
    tok: "prepare_security_token e request
            (set_lifetime (requestedLifetime request) (s\<lparr>clientNonce := req_clientNonce request\<rparr>))
          = (Inr (), s1)" and
    keys: "compute_nonce_and_keys e s1 = (Inr result, s2)" and
    hdr: "install_security_header e request m
            (pushNewToken (securityToken s2) (map_option derivedClientKeys (derivedKeys s2)) s2)
          = (Inr (), s3)" and
    resp: "build_response e m result s3 = (Inr resp, s4)" and
    send: "send_and_close_unless_Good e m cb resp s4 = (Inr evs, s')"
    by (rule handle_OpenSecureChannelRequest_Inr)
  have k: "kept s1 s'"
    using compute_nonce_and_keys_kept [OF keys] install_security_header_kept [OF hdr]
      build_response_kept [OF resp] send_and_close_unless_Good_Inr [OF send]
      pushNewToken_kept [of s2 "securityToken s2" "map_option derivedClientKeys (derivedKeys s2)"]
    by (blast intro: kept_trans)
  from prepare_security_token_Inr [OF tok] have
    "securityToken s1 =
       Some \<lparr> tok_secureChannelId = secureChannelId s, tokenId = lastTokenId s + 1,
              createdAt = now e,
              tok_revisedLifeTime =
                (if requestedLifetime request = 0 then defaultSecureTokenLifetime s
                 else min (defaultSecureTokenLifetime s) (requestedLifetime request)) \<rparr>"
    "lastTokenId s1 = lastTokenId s + 1"
    "defaultSecureTokenLifetime s1 = defaultSecureTokenLifetime s"
    "secureChannelId s1 = secureChannelId s" "parent s1 = parent s"
    "securityMode s1 = securityMode s" "clientSecurityHeader s1 = clientSecurityHeader s"
    by (auto simp: set_lifetime_def split: if_splits)
  with k body show ?thesis by (simp add: kept_def)
qed


lemma handle_all_tokenIds:
  "handle_all s steps = Inr toks \<Longrightarrow>
     map tokenId toks = [lastTokenId s + 1 ..< lastTokenId s + 1 + length steps]"
proof (induction steps arbitrary: s toks)
  case Nil
  then show ?case by simp
next
  case (Cons step steps)
  obtain e m where step: "step = (e, m)" by (cases step)
  from Cons.prems step obtain evs s1 rest where
    h: "handle_OpenSecureChannelRequest e m [] s = (Inr evs, s1)" and
    r: "handle_all s1 steps = Inr rest" and
    t: "toks = (case securityToken s1 of Some tok \<Rightarrow> [tok] | None \<Rightarrow> []) @ rest"
    by (auto split: prod.splits sum.splits)
  from handle_OpenSecureChannelRequest_token [OF h] obtain tok where
    tok: "securityToken s1 = Some tok" "tokenId tok = lastTokenId s + 1"
      "lastTokenId s1 = lastTokenId s + 1"
    by auto
  from Cons.IH [OF r] tok have
    "map tokenId rest = [lastTokenId s + 2 ..< lastTokenId s + 2 + length steps]"
    by simp
  with t tok show ?case by (simp add: upt_rec)
qed

lemma handle_OpenSecureChannelRequest_events:
  assumes "handle_OpenSecureChannelRequest e m cb s = (Inr evs, s')"
  shows "\<exists>opts resp closing.
           evs = Transport_write OPN opts resp # Emit_transaction_done # closing @ cb \<and>
           resp_requestHandle (responseHeader resp) = requestHandle (msg_request m) \<and>
           responses_written closing = [] \<and>
           (serviceResult (responseHeader resp) \<noteq> Good \<longrightarrow>
              (\<exists>rest. closing = Transport_disconnect # rest) \<and> abort_has_been_called s') \<and>
           (serviceResult (responseHeader resp) = Good \<longrightarrow> closing = [])"
proof -
  from assms obtain resp s4 where
    send: "send_and_close_unless_Good e m cb resp s4 = (Inr evs, s')"
    by (rule handle_OpenSecureChannelRequest_Inr)
  from send_and_close_unless_Good_Inr [OF send] show ?thesis
    by (cases "serviceResult (responseHeader resp) = Good") auto
qed

lemma send_error_and_abort_Inr:
  assumes "send_error_and_abort e sc d m cb s = (Inr evs, s')"
  shows "\<exists>opts resp closing.
           evs = Transport_write MSG opts resp # Emit_transaction_done # Transport_disconnect # closing @ cb \<and>
           responseHeader resp = \<lparr> serviceResult = sc, resp_requestHandle = requestHandle (msg_request m) \<rparr> \<and>
           response_body resp = ServiceFault_body (Some d) \<and>
           responses_written closing = [] \<and>
           abort_has_been_called s' \<and> clientCertificate s' = clientCertificate s"
proof -
  from assms obtain sent s1 where
    sent: "send_response e MSG ((ServiceFault sc)\<lparr>response_body := ServiceFault_body (Some d)\<rparr>) m s
             = (Inr sent, s1)" and
    rest: "(case close s1 of (closing, s2) \<Rightarrow> (Inr (sent @ closing @ cb), s2))
             = ((Inr evs, s') :: event list result)"
    by (auto simp: send_error_and_abort_def and_then_Inr split: if_splits)
  from send_response_Inr [OF sent] obtain opts where
    "sent = [Transport_write MSG opts
               ((ServiceFault sc)\<lparr>response_body := ServiceFault_body (Some d),
                  responseHeader := (responseHeader ((ServiceFault sc)\<lparr>response_body := ServiceFault_body (Some d)\<rparr>))
                     \<lparr>resp_requestHandle := requestHandle (msg_request m)\<rparr>\<rparr>),
             Emit_transaction_done]"
    "s1 = s\<lparr>transactionsCount := transactionsCount s + 1\<rparr>"
    by auto
  moreover from rest have "evs = sent @ fst (close s1) @ cb" "s' = snd (close s1)"
    by (simp_all split: prod.splits)
  ultimately show ?thesis
    by (simp add: close_eq ServiceFault_def)
qed


lemma on_initial_OpenSecureChannelRequest_Inr:
  assumes "on_initial_OpenSecureChannelRequest e m s = (Inr evs, s')"
  shows "(\<exists>sc d s0. sc \<noteq> Good \<and> clientCertificate s0 = clientCertificate s \<and>
            send_error_and_abort e sc d m [Callback_called True] s0 = (Inr evs, s')) \<or>
         (\<exists>request h.
            request_body (msg_request m) = OpenSecureChannelRequest_body request \<and>
            msg_securityHeader m = Some h \<and>
            handle_OpenSecureChannelRequest e m [Callback_called False]
              (process_certificates e m
                 (s\<lparr>securityMode := req_securityMode request,
                     messageBuilder :=
                       (messageBuilder s)\<lparr>mb_securityMode := req_securityMode request\<rparr>\<rparr>))
            = (Inr evs, s'))"
    (is "?error_path \<or> ?handshake")
proof -
  have errI: "?error_path"
    if "send_error_and_abort e sc d m [Callback_called True] s0 = (Inr evs, s')"
      "sc \<noteq> Good" "clientCertificate s0 = clientCertificate s" for sc d s0
    using that by blast
  have id: "msg_requestId m \<noteq> 0"
    using assms by (auto simp: on_initial_OpenSecureChannelRequest_def split: if_splits)
  show ?thesis
  proof (cases "request_body (msg_request m)")
    case (OpenSecureChannelRequest_body request)
    show ?thesis
    proof (cases "msg_securityHeader m")
      case None
      with assms OpenSecureChannelRequest_body show ?thesis
        by (simp add: on_initial_OpenSecureChannelRequest_def split: if_splits)
    next
      case (Some h)
      define pol where "pol = fromURI e (securityPolicyUri h)"
      define s1 where "s1 = s\<lparr>securityMode := req_securityMode request,
                              messageBuilder :=
                                (messageBuilder s)\<lparr>mb_securityMode := req_securityMode request\<rparr>\<rparr>"
      show ?thesis
      proof (cases "isValidSecurityPolicy pol = Good")
        case False
        with assms OpenSecureChannelRequest_body Some id have
          "send_error_and_abort e (isValidSecurityPolicy pol)
             ('' Unsupported securityPolicyUri '' @ securityPolicyUri h) m [Callback_called True]
             (s\<lparr>securityMode := NONE\<rparr>) = (Inr evs, s')"
          by (simp add: on_initial_OpenSecureChannelRequest_def send_error_def pol_def)
        from errI [OF this False] show ?thesis by simp
      next
        case True
        show ?thesis
        proof (cases "has_endpoint_for_security_mode_and_policy s1 (securityMode s1) pol")
          case False
          with assms OpenSecureChannelRequest_body Some id True have
            "send_error_and_abort e BadSecurityPolicyRejected
               '' This server doesn't not support '' m [Callback_called True]
               (s1\<lparr>securityMode := NONE\<rparr>) = (Inr evs, s')"
            by (simp add: on_initial_OpenSecureChannelRequest_def send_error_def pol_def s1_def)
          from errI [OF this] show ?thesis by (simp add: s1_def)
        next
          case has: True
          with assms OpenSecureChannelRequest_body Some id True have
            "handle_OpenSecureChannelRequest e m [Callback_called False]
               (process_certificates e m s1) = (Inr evs, s')"
            by (simp add: on_initial_OpenSecureChannelRequest_def pol_def s1_def)
          with OpenSecureChannelRequest_body Some show ?thesis
            by (simp add: s1_def)
        qed
      qed
    qed
  next
    case CloseSecureChannelRequest_body
    with assms id have
      "send_error_and_abort e BadCommunicationError ''Expecting OpenSecureChannelRequest'' m
         [Callback_called True] (s\<lparr>securityMode := NONE\<rparr>) = (Inr evs, s')"
      by (simp add: on_initial_OpenSecureChannelRequest_def send_error_def)
    from errI [OF this] show ?thesis by simp
  next
    case Other_request_body
    with assms id have
      "send_error_and_abort e BadCommunicationError ''Expecting OpenSecureChannelRequest'' m
         [Callback_called True] (s\<lparr>securityMode := NONE\<rparr>) = (Inr evs, s')"
      by (simp add: on_initial_OpenSecureChannelRequest_def send_error_def)
    from errI [OF this] show ?thesis by simp
  qed
qed


lemma responses_written_append:
  "responses_written (xs @ ys) = responses_written xs @ responses_written ys"
  by (induction xs rule: responses_written.induct) simp_all

lemma on_initial_open_secure_channel_request_Inr:
  assumes "on_initial_open_secure_channel_request e req s = (Inr evs, s')"
  shows "\<exists>s0. sequenceHeader_requestId (messageBuilder s) \<noteq> 0 \<and>
           s0 = s\<lparr>timeoutId := None,
                  clientSecurityHeader := mb_securityHeader (messageBuilder s)\<rparr> \<and>
           on_initial_OpenSecureChannelRequest e
             \<lparr> msg_request = req, msg_securityHeader = mb_securityHeader (messageBuilder s),
               msg_requestId = sequenceHeader_requestId (messageBuilder s) \<rparr> s0 = (Inr evs, s')"
  using assms
  by (simp add: on_initial_open_secure_channel_request_def Let_def split: if_splits)

lemma on_common_message_OPN:
  "on_common_message e req OPN s =
     (case request_body req of
        OpenSecureChannelRequest_body r \<Rightarrow>
          handle_OpenSecureChannelRequest e
            \<lparr> msg_request = req, msg_securityHeader = None,
              msg_requestId = sequenceHeader_requestId (messageBuilder s) \<rparr> [] s
      | CloseSecureChannelRequest_body \<Rightarrow> (Inr (fst (close s)), snd (close s))
      | Other_request_body \<Rightarrow>
          (Inr [Emit_message \<lparr> msg_request = req, msg_securityHeader = None,
                  msg_requestId = sequenceHeader_requestId (messageBuilder s) \<rparr>], s))"
  by (simp add: on_common_message_def Let_def split: request_body.splits prod.splits)

lemma first_handshake_closes_unless_Good:
  assumes "on_initial_open_secure_channel_request e req s = (Inr evs, s')"
  shows "\<exists>r. first_response evs = Some r \<and>
           resp_requestHandle (responseHeader r) = requestHandle req \<and>
           responses_written evs = [r] \<and>
           (serviceResult (responseHeader r) \<noteq> Good \<longrightarrow>
              closes_after_response evs \<and> abort_has_been_called s')"
proof -
  from on_initial_open_secure_channel_request_Inr [OF assms] obtain s0 m where
    m: "m = \<lparr> msg_request = req, msg_securityHeader = mb_securityHeader (messageBuilder s),
               msg_requestId = sequenceHeader_requestId (messageBuilder s) \<rparr>" and
    h: "on_initial_OpenSecureChannelRequest e m s0 = (Inr evs, s')"
    by blast
  from on_initial_OpenSecureChannelRequest_Inr [OF h] show ?thesis
  proof
    assume "\<exists>sc d s0'. sc \<noteq> Good \<and> clientCertificate s0' = clientCertificate s0 \<and>
              send_error_and_abort e sc d m [Callback_called True] s0' = (Inr evs, s')"
    then obtain sc d s0' where
      "send_error_and_abort e sc d m [Callback_called True] s0' = (Inr evs, s')" by blast
    from send_error_and_abort_Inr [OF this] m show ?thesis
      by (auto simp: responses_written_append)
  next
    assume "\<exists>request h. request_body (msg_request m) = OpenSecureChannelRequest_body request \<and>
              msg_securityHeader m = Some h \<and>
              handle_OpenSecureChannelRequest e m [Callback_called False]
                (process_certificates e m
                   (s0\<lparr>securityMode := req_securityMode request,
                        messageBuilder :=
                          (messageBuilder s0)\<lparr>mb_securityMode := req_securityMode request\<rparr>\<rparr>))
              = (Inr evs, s')"
    then obtain s1 where
      "handle_OpenSecureChannelRequest e m [Callback_called False] s1 = (Inr evs, s')" by blast
    from handle_OpenSecureChannelRequest_events [OF this] m show ?thesis
      by (auto simp: responses_written_append)
  qed
qed

lemma renewal_closes_unless_Good:
  assumes "on_common_message e req OPN s = (Inr evs, s')"
    and "request_body req = OpenSecureChannelRequest_body request"
  shows "\<exists>r. first_response evs = Some r \<and>
           resp_requestHandle (responseHeader r) = requestHandle req \<and>
           responses_written evs = [r] \<and>
           (serviceResult (responseHeader r) \<noteq> Good \<longrightarrow>
              closes_after_response evs \<and> abort_has_been_called s')"
proof -
  from assms have
    "handle_OpenSecureChannelRequest e
       \<lparr> msg_request = req, msg_securityHeader = None,
         msg_requestId = sequenceHeader_requestId (messageBuilder s) \<rparr> [] s = (Inr evs, s')"
    by (simp add: on_common_message_OPN)
  from handle_OpenSecureChannelRequest_events [OF this] show ?thesis
    by (auto simp: responses_written_append)
qed

lemma returned_eq: "returned r \<Longrightarrow> r = (Inr (events_of r), snd r)"
  by (cases r; cases "fst r") (auto simp: returned_def events_of_def)

lemma on_common_message_responses:
  assumes "on_common_message e req t s = (Inr evs, s')"
  shows "\<forall>r \<in> set (responses_written evs).
           resp_requestHandle (responseHeader r) = requestHandle req"
proof (cases "request_body req")
  case (OpenSecureChannelRequest_body request)
  show ?thesis
  proof (cases "t = OPN")
    case True
    with assms OpenSecureChannelRequest_body
    have "\<exists>r. responses_written evs = [r] \<and>
            resp_requestHandle (responseHeader r) = requestHandle req"
      using renewal_closes_unless_Good [of e req s evs s' request] by blast
    then show ?thesis by auto
  next
    case False
    with assms OpenSecureChannelRequest_body show ?thesis
      by (auto simp: on_common_message_def Let_def)
  qed
next
  case CloseSecureChannelRequest_body
  with assms show ?thesis
    by (auto simp: on_common_message_def Let_def close_eq split: if_splits)
next
  case Other_request_body
  with assms show ?thesis
    by (auto simp: on_common_message_def Let_def)
qed

subsection \<open>Hexadecimal form\<close>

lemma hex_digit_inj:
  assumes "i < 16" "j < 16" "hex_digit i = hex_digit j"
  shows "i = j"
proof -
  have d: "distinct ''0123456789abcdef''" by simp
  have "length ''0123456789abcdef'' = 16" by simp
  with assms d show ?thesis
    by (simp add: hex_digit_def nth_eq_iff_index_eq)
qed

lemma hex_digit_lowercase: "i < 16 \<Longrightarrow> hex_digit i \<in> set ''0123456789abcdef''"
  unfolding hex_digit_def by (rule nth_mem) simp

lemma byte_hex_inj:
  assumes "byte_hex a = byte_hex b"
  shows "a = b"
proof -
  have a: "unat a < 256" using unsigned_less [of a, where ?'a = nat] by simp
  have b: "unat b < 256" using unsigned_less [of b, where ?'a = nat] by simp
  from assms have
    "hex_digit (unat a div 16) = hex_digit (unat b div 16)"
    "hex_digit (unat a mod 16) = hex_digit (unat b mod 16)"
    by (simp_all add: byte_hex_def)
  with a b have "unat a div 16 = unat b div 16" "unat a mod 16 = unat b mod 16"
    by (auto intro!: hex_digit_inj simp: less_mult_imp_div_less)
  then have "unat a = unat b"
    by (metis div_mult_mod_eq)
  then show ?thesis by (rule unsigned_word_eqI)
qed

lemma toString_hex_Cons: "toString_hex (b # bs) = byte_hex b @ toString_hex bs"
  by (simp add: toString_hex_def)

lemma toString_hex_inj: "toString_hex xs = toString_hex ys \<longleftrightarrow> xs = ys"
proof
  show "toString_hex xs = toString_hex ys \<Longrightarrow> xs = ys"
  proof (induction xs arbitrary: ys)
    case Nil
    then show ?case by (cases ys) (simp_all add: toString_hex_def byte_hex_def)
  next
    case (Cons x xs)
    show ?case
    proof (cases ys)
      case Nil
      with Cons.prems show ?thesis by (simp add: toString_hex_def byte_hex_def)
    next
      case (Cons y ys')
      with Cons.prems have "byte_hex x @ toString_hex xs = byte_hex y @ toString_hex ys'"
        by (simp add: toString_hex_Cons)
      moreover have "length (byte_hex x) = length (byte_hex y)" by (simp add: byte_hex_def)
      ultimately have "byte_hex x = byte_hex y" "toString_hex xs = toString_hex ys'"
        by simp_all
      with Cons.IH Cons show ?thesis by (simp add: byte_hex_inj)
    qed
  qed
qed simp

lemma toString_hex_lowercase: "set (toString_hex bs) \<subseteq> set ''0123456789abcdef''"
proof -
  have "set (byte_hex b) \<subseteq> set ''0123456789abcdef''" for b
  proof -
    have "unat b < 256" using unsigned_less [of b, where ?'a = nat] by simp
    then have "unat b div 16 < 16" "unat b mod 16 < 16" by (simp_all add: less_mult_imp_div_less)
    then have "hex_digit (unat b div 16) \<in> set ''0123456789abcdef''"
      "hex_digit (unat b mod 16) \<in> set ''0123456789abcdef''"
      by (simp_all only: hex_digit_lowercase)
    then show ?thesis
      unfolding byte_hex_def by (simp only: set_simps(2) insert_subset list.set(1) empty_subsetI)
  qed
  note digits = this
  show ?thesis
  proof (induction bs)
    case Nil
    show ?case by (simp add: toString_hex_def)
  next
    case (Cons b bs)
    from digits [of b] Cons.IH show ?case
      by (simp only: toString_hex_Cons set_append Un_subset_iff)
  qed
qed

subsection \<open>Nonces, thumbprints and certificates in the handshake\<close>

lemma length_randomBytes: "length (randomBytes e n) = n"
  by (simp add: randomBytes_def)

lemma compute_nonce_and_keys_Inr:
  assumes "compute_nonce_and_keys e s = (Inr result, s')"
  shows "case cryptoFactory (messageBuilder s) of
           None \<Rightarrow> result = Good \<and> s' = s
         | Some cf \<Rightarrow>
             (\<exists>cn. clientNonce s = Some cn \<and>
                result = (if length cn \<noteq> symmetricKeyLength cf then BadSecurityModeRejected
                          else Good) \<and>
                s' = s\<lparr>serverNonce := Some (randomBytes e (symmetricKeyLength cf)),
                       derivedKeys := Some (compute_derived_keys cf
                                              (randomBytes e (symmetricKeyLength cf)) cn)\<rparr>)"
  using assms
  by (auto simp: compute_nonce_and_keys_def Let_def length_randomBytes split: option.splits)

lemma pushNewToken_kept_keys: "kept_keys s (pushNewToken t k s)"
  by (simp add: pushNewToken_def kept_keys_def)

lemma install_security_header_kept_keys:
  "install_security_header e req m s = (r, s') \<Longrightarrow> kept_keys s s'"
  by (auto simp: install_security_header_def kept_keys_def split: sum.splits option.splits)

lemma send_and_close_unless_Good_kept_keys:
  assumes "send_and_close_unless_Good e m cb resp s = (Inr evs, s')"
  shows "kept_keys s s'"
proof -
  from assms obtain sent s1 where
    sent: "send_response e OPN resp m s = (Inr sent, s1)" and
    rest: "(if serviceResult (responseHeader resp) \<noteq> Good
            then (case close s1 of (closing, s2) \<Rightarrow> (Inr (sent @ closing @ cb), s2))
            else (Inr (sent @ cb), s1)) = ((Inr evs, s') :: event list result)"
    by (auto simp: send_and_close_unless_Good_def and_then_Inr)
  from send_response_Inr [OF sent] have s1: "s1 = s\<lparr>transactionsCount := transactionsCount s + 1\<rparr>"
    by blast
  from rest have "s' = s1 \<or> s' = snd (close s1)"
    by (auto split: if_splits prod.splits)
  with s1 show ?thesis by (auto simp: close_eq kept_keys_def)
qed

lemma check_receiverCertificateThumbprint_parent:
  "parent s' = parent s \<Longrightarrow>
     check_receiverCertificateThumbprint e h s' = check_receiverCertificateThumbprint e h s"
  by (simp add: check_receiverCertificateThumbprint_def getCertificateChain_def
      split: option.splits)

lemma check_receiverCertificateThumbprint_Some:
  assumes "receiverCertificateThumbprint h = Some thumbprint" and "parent s = Some p"
  shows "check_receiverCertificateThumbprint e (Some h) s
           = Inr (thumbprint = makeSHA1Thumbprint e (certificateChain p))"
  using assms
  by (auto simp: check_receiverCertificateThumbprint_def getCertificateChain_def toString_hex_inj)

lemma check_receiverCertificateThumbprint_None:
  assumes "receiverCertificateThumbprint h = None"
  shows "check_receiverCertificateThumbprint e (Some h) s = Inr True"
  using assms by (simp add: check_receiverCertificateThumbprint_def)

lemma check_certificate_validity_Inr:
  assumes "check_certificate_validity e (Some c) = Inr st"
  shows "\<exists>cert. exploreCertificate e c = Some cert \<and>
           st = (if notBefore cert \<le> now e \<and> now e < notAfter cert then Good
                 else BadCertificateTimeInvalid)"
proof (cases "exploreCertificate e c")
  case None
  with assms show ?thesis by (simp add: check_certificate_validity_def)
next
  case (Some cert)
  with assms have
    "st = (if notBefore cert \<le> now e \<and> now e < notAfter cert then Good
           else BadCertificateTimeInvalid)"
    by (auto simp: check_certificate_validity_def split: if_splits)
  with Some show ?thesis by blast
qed

lemma check_certificate_validity_status:
  assumes "check_certificate_validity e (Some c) = Inr st"
  shows "st = Good \<or> st = BadCertificateTimeInvalid"
  using check_certificate_validity_Inr [OF assms] by (auto split: if_splits)

lemma build_response_Inr:
  assumes "build_response e m result s = (Inr resp, s')"
  shows "\<exists>ok st.
           s' = s\<lparr>clientCertificate :=
                    (case msg_securityHeader m of Some h \<Rightarrow> senderCertificate h | None \<Rightarrow> None)\<rparr> \<and>
           (if securityMode s \<noteq> NONE
            then check_receiverCertificateThumbprint e (clientSecurityHeader s) s
            else Inr True) = Inr ok \<and>
           (case clientCertificate s' of
              None \<Rightarrow> st = Good
            | Some c \<Rightarrow> check_certificate_validity e (Some c) = Inr st) \<and>
           resp = (if st \<noteq> Good then ServiceFault st
                   else OpenSecureChannelResponse (if ok then result else BadCertificateInvalid) s)"
proof -
  define s1 where "s1 = s\<lparr>clientCertificate :=
                    (case msg_securityHeader m of Some h \<Rightarrow> senderCertificate h | None \<Rightarrow> None)\<rparr>"
  have p: "check_receiverCertificateThumbprint e (clientSecurityHeader s) s1
             = check_receiverCertificateThumbprint e (clientSecurityHeader s) s"
    by (rule check_receiverCertificateThumbprint_parent) (simp add: s1_def)
  from assms obtain ok where
    ok: "(if securityMode s \<noteq> NONE
          then check_receiverCertificateThumbprint e (clientSecurityHeader s) s
          else Inr True) = Inr ok"
    unfolding build_response_def Let_def s1_def [symmetric]
    by (cases "if securityMode s \<noteq> NONE
               then check_receiverCertificateThumbprint e (clientSecurityHeader s) s
               else Inr True") (auto simp: s1_def p [unfolded s1_def] split: if_splits)
  define response1 where
    "response1 = OpenSecureChannelResponse (if ok then result else BadCertificateInvalid) s"
  have r1: "(if ok then OpenSecureChannelResponse result s
             else (OpenSecureChannelResponse result s)\<lparr>responseHeader :=
                    (responseHeader (OpenSecureChannelResponse result s))
                      \<lparr>serviceResult := BadCertificateInvalid\<rparr>\<rparr>) = response1"
    by (simp add: response1_def OpenSecureChannelResponse_def)
  from assms ok p have rest:
    "(case clientCertificate s1 of
        None \<Rightarrow> (Inr response1, s1)
      | Some c \<Rightarrow>
          (case check_certificate_validity e (Some c) of
             Inl err \<Rightarrow> (Inl err, s1)
           | Inr certificate_status \<Rightarrow>
               if certificate_status \<noteq> Good
               then (Inr (ServiceFault certificate_status), s1)
               else (Inr response1, s1))) = (Inr resp, s')"
    unfolding build_response_def Let_def s1_def [symmetric] r1 [symmetric]
    by (auto simp: s1_def split: if_splits)
  show ?thesis
  proof (cases "clientCertificate s1")
    case None
    with rest have "resp = response1" "s' = s1" by simp_all
    with None ok show ?thesis
      by (intro exI [of _ ok] exI [of _ Good]) (simp add: s1_def response1_def)
  next
    case (Some c)
    with rest obtain st where
      st: "check_certificate_validity e (Some c) = Inr st" and
      "resp = (if st \<noteq> Good then ServiceFault st else response1)" "s' = s1"
      by (auto split: sum.splits if_splits)
    with Some ok show ?thesis
      by (intro exI [of _ ok] exI [of _ st]) (simp add: s1_def response1_def)
  qed
qed

lemma build_response_kept_keys:
  "build_response e m res s = (Inr resp, s') \<Longrightarrow> kept_keys s s'"
  by (drule build_response_Inr) (auto simp: kept_keys_def)

lemma kept_keys_trans: "kept_keys a b \<Longrightarrow> kept_keys b c \<Longrightarrow> kept_keys a c"
  by (simp add: kept_keys_def)

lemma handle_OpenSecureChannelRequest_outcome:
  assumes "handle_OpenSecureChannelRequest e m cb s = (Inr evs, s')"
  shows "\<exists>request result ok st r.
     request_body (msg_request m) = OpenSecureChannelRequest_body request \<and>
     (case cryptoFactory (messageBuilder s) of
        None \<Rightarrow> result = Good \<and> serverNonce s' = serverNonce s \<and> derivedKeys s' = derivedKeys s
      | Some cf \<Rightarrow>
          (\<exists>cn. req_clientNonce request = Some cn \<and>
             result = (if length cn \<noteq> symmetricKeyLength cf then BadSecurityModeRejected
                       else Good) \<and>
             serverNonce s' = Some (randomBytes e (symmetricKeyLength cf)) \<and>
             derivedKeys s' = Some (compute_derived_keys cf
                                      (randomBytes e (symmetricKeyLength cf)) cn))) \<and>
     (if securityMode s \<noteq> NONE
      then check_receiverCertificateThumbprint e (clientSecurityHeader s) s
      else Inr True) = Inr ok \<and>
     clientCertificate s' =
       (case msg_securityHeader m of Some h \<Rightarrow> senderCertificate h | None \<Rightarrow> None) \<and>
     (case clientCertificate s' of
        None \<Rightarrow> st = Good
      | Some c \<Rightarrow> check_certificate_validity e (Some c) = Inr st) \<and>
     first_response evs = Some r \<and>
     serviceResult (responseHeader r) =
       (if st \<noteq> Good then st else if ok then result else BadCertificateInvalid) \<and>
     response_body r =
       (if st \<noteq> Good then ServiceFault_body None
        else OpenSecureChannelResponse_body (protocolVersion s) (securityToken s') (serverNonce s')) \<and>
     (serviceResult (responseHeader r) \<noteq> Good \<longrightarrow>
        closes_after_response evs \<and> abort_has_been_called s')"
proof -
  from assms obtain request s1 result s2 s3 resp s4 where
    body: "request_body (msg_request m) = OpenSecureChannelRequest_body request" and
    tok: "prepare_security_token e request
            (set_lifetime (requestedLifetime request) (s\<lparr>clientNonce := req_clientNonce request\<rparr>))
          = (Inr (), s1)" and
    keys: "compute_nonce_and_keys e s1 = (Inr result, s2)" and
    hdr: "install_security_header e request m
            (pushNewToken (securityToken s2) (map_option derivedClientKeys (derivedKeys s2)) s2)
          = (Inr (), s3)" and
    resp: "build_response e m result s3 = (Inr resp, s4)" and
    send: "send_and_close_unless_Good e m cb resp s4 = (Inr evs, s')"
    by (rule handle_OpenSecureChannelRequest_Inr)
  let ?pushed = "pushNewToken (securityToken s2) (map_option derivedClientKeys (derivedKeys s2)) s2"
  \<comment> \<open>the token step\<close>
  from prepare_security_token_Inr [OF tok] have s1:
    "cryptoFactory (messageBuilder s1) = cryptoFactory (messageBuilder s)"
    "clientNonce s1 = req_clientNonce request"
    "serverNonce s1 = serverNonce s" "derivedKeys s1 = derivedKeys s"
    "parent s1 = parent s" "securityMode s1 = securityMode s"
    "clientSecurityHeader s1 = clientSecurityHeader s" "protocolVersion s1 = protocolVersion s"
    by (auto simp: set_lifetime_def split: if_splits)
  \<comment> \<open>what the later steps keep\<close>
  have k13: "kept s1 s3"
    using compute_nonce_and_keys_kept [OF keys] install_security_header_kept [OF hdr]
      pushNewToken_kept [of s2 "securityToken s2" "map_option derivedClientKeys (derivedKeys s2)"]
    by (blast intro: kept_trans)
  have k3': "kept s3 s'"
    using build_response_kept [OF resp] send_and_close_unless_Good_Inr [OF send]
    by (blast intro: kept_trans)
  have kk: "kept_keys s2 s'"
    using pushNewToken_kept_keys [of s2 "securityToken s2"
        "map_option derivedClientKeys (derivedKeys s2)"]
      install_security_header_kept_keys [OF hdr] build_response_kept_keys [OF resp]
      send_and_close_unless_Good_kept_keys [OF send]
    by (blast intro: kept_keys_trans)
  \<comment> \<open>nonces and keys\<close>
  have nonce: "case cryptoFactory (messageBuilder s) of
        None \<Rightarrow> result = Good \<and> serverNonce s' = serverNonce s \<and> derivedKeys s' = derivedKeys s
      | Some cf \<Rightarrow>
          (\<exists>cn. req_clientNonce request = Some cn \<and>
             result = (if length cn \<noteq> symmetricKeyLength cf then BadSecurityModeRejected
                       else Good) \<and>
             serverNonce s' = Some (randomBytes e (symmetricKeyLength cf)) \<and>
             derivedKeys s' = Some (compute_derived_keys cf
                                      (randomBytes e (symmetricKeyLength cf)) cn))"
    using compute_nonce_and_keys_Inr [OF keys] s1 kk
    by (auto simp: kept_keys_def split: option.splits)
  \<comment> \<open>the response\<close>
  from build_response_Inr [OF resp] obtain ok st where
    s4: "s4 = s3\<lparr>clientCertificate :=
                   (case msg_securityHeader m of Some h \<Rightarrow> senderCertificate h | None \<Rightarrow> None)\<rparr>" and
    ok3: "(if securityMode s3 \<noteq> NONE
           then check_receiverCertificateThumbprint e (clientSecurityHeader s3) s3
           else Inr True) = Inr ok" and
    st: "case clientCertificate s4 of
           None \<Rightarrow> st = Good
         | Some c \<Rightarrow> check_certificate_validity e (Some c) = Inr st" and
    r4: "resp = (if st \<noteq> Good then ServiceFault st
                 else OpenSecureChannelResponse (if ok then result else BadCertificateInvalid) s3)"
    by blast
  have same3: "securityMode s3 = securityMode s" "clientSecurityHeader s3 = clientSecurityHeader s"
    "parent s3 = parent s" "protocolVersion s3 = protocolVersion s"
    using k13 s1 by (simp_all add: kept_def)
  have ok: "(if securityMode s \<noteq> NONE
             then check_receiverCertificateThumbprint e (clientSecurityHeader s) s
             else Inr True) = Inr ok"
    using ok3 same3 check_receiverCertificateThumbprint_parent [of s3 s e "clientSecurityHeader s"]
    by (auto split: if_splits)
  \<comment> \<open>sending\<close>
  from send_and_close_unless_Good_Inr [OF send] obtain opts where
    evs: "evs = [Transport_write OPN opts
                   (resp\<lparr>responseHeader := (responseHeader resp)\<lparr>resp_requestHandle :=
                            requestHandle (msg_request m)\<rparr>\<rparr>),
                 Emit_transaction_done]
                @ (if serviceResult (responseHeader resp) = Good then []
                   else Transport_disconnect #
                        (if abort_has_been_called s4 then [] else [Emit_abort]))
                @ cb" and
    ab: "serviceResult (responseHeader resp) \<noteq> Good \<longrightarrow> abort_has_been_called s'" and
    cc: "clientCertificate s' = clientCertificate s4"
    by blast
  let ?r = "resp\<lparr>responseHeader := (responseHeader resp)\<lparr>resp_requestHandle :=
                   requestHandle (msg_request m)\<rparr>\<rparr>"
  have first: "first_response evs = Some ?r" by (simp add: evs)
  have closes: "serviceResult (responseHeader ?r) \<noteq> Good \<longrightarrow>
                  closes_after_response evs \<and> abort_has_been_called s'"
    using ab by (simp add: evs)
  have cert: "clientCertificate s' =
       (case msg_securityHeader m of Some h \<Rightarrow> senderCertificate h | None \<Rightarrow> None)"
    using cc s4 by simp
  have st': "case clientCertificate s' of
               None \<Rightarrow> st = Good
             | Some c \<Rightarrow> check_certificate_validity e (Some c) = Inr st"
    using st cc by simp
  have tok3: "securityToken s3 = securityToken s'" "serverNonce s3 = serverNonce s'"
    using k3' install_security_header_kept_keys [OF hdr] build_response_kept_keys [OF resp]
      send_and_close_unless_Good_kept_keys [OF send]
    by (simp_all add: kept_def kept_keys_def)
  have result: "serviceResult (responseHeader ?r) =
       (if st \<noteq> Good then st else if ok then result else BadCertificateInvalid)"
    by (simp add: r4 ServiceFault_def OpenSecureChannelResponse_def)
  have rbody: "response_body ?r =
       (if st \<noteq> Good then ServiceFault_body None
        else OpenSecureChannelResponse_body (protocolVersion s) (securityToken s') (serverNonce s'))"
    using same3 tok3 by (simp add: r4 ServiceFault_def OpenSecureChannelResponse_def)
  from body nonce ok cert st' first result rbody closes show ?thesis
    by blast
qed

lemma first_handshake_Good:
  assumes "on_initial_open_secure_channel_request e req s = (Inr evs, s')"
    and "first_response evs = Some r" and "serviceResult (responseHeader r) = Good"
  shows "clientCertificate s' =
           (case mb_securityHeader (messageBuilder s) of
              Some h \<Rightarrow> senderCertificate h
            | None \<Rightarrow> None) \<and>
         Transport_disconnect \<notin> set evs"
proof -
  from on_initial_open_secure_channel_request_Inr [OF assms(1)] obtain s0 m where
    m: "m = \<lparr> msg_request = req, msg_securityHeader = mb_securityHeader (messageBuilder s),
               msg_requestId = sequenceHeader_requestId (messageBuilder s) \<rparr>" and
    h: "on_initial_OpenSecureChannelRequest e m s0 = (Inr evs, s')"
    by blast
  from on_initial_OpenSecureChannelRequest_Inr [OF h] show ?thesis
  proof
    assume "\<exists>sc d s0'. sc \<noteq> Good \<and> clientCertificate s0' = clientCertificate s0 \<and>
              send_error_and_abort e sc d m [Callback_called True] s0' = (Inr evs, s')"
    then obtain sc d s0' where
      sc: "sc \<noteq> Good" and
      "send_error_and_abort e sc d m [Callback_called True] s0' = (Inr evs, s')" by blast
    from send_error_and_abort_Inr [OF this(2)] assms(2) have "serviceResult (responseHeader r) = sc"
      by auto
    with sc assms(3) show ?thesis by simp
  next
    assume "\<exists>request h. request_body (msg_request m) = OpenSecureChannelRequest_body request \<and>
              msg_securityHeader m = Some h \<and>
              handle_OpenSecureChannelRequest e m [Callback_called False]
                (process_certificates e m
                   (s0\<lparr>securityMode := req_securityMode request,
                        messageBuilder :=
                          (messageBuilder s0)\<lparr>mb_securityMode := req_securityMode request\<rparr>\<rparr>))
              = (Inr evs, s')"
    then obtain s1 where
      run: "handle_OpenSecureChannelRequest e m [Callback_called False] s1 = (Inr evs, s')"
      by blast
    from handle_OpenSecureChannelRequest_outcome [OF run] have
      "clientCertificate s' =
         (case msg_securityHeader m of Some h \<Rightarrow> senderCertificate h | None \<Rightarrow> None)"
      by blast
    moreover from handle_OpenSecureChannelRequest_events [OF run] assms(2,3)
    have "Transport_disconnect \<notin> set evs" by auto
    ultimately show ?thesis by (simp add: m)
  qed
qed

lemma renewal_clears_clientCertificate:
  assumes "on_common_message e req OPN s = (Inr evs, s')"
    and "request_body req = OpenSecureChannelRequest_body request"
  shows "clientCertificate s' = None"
proof -
  from assms have
    "handle_OpenSecureChannelRequest e
       \<lparr> msg_request = req, msg_securityHeader = None,
         msg_requestId = sequenceHeader_requestId (messageBuilder s) \<rparr> [] s = (Inr evs, s')"
    by (simp add: on_common_message_OPN)
  from handle_OpenSecureChannelRequest_outcome [OF this] show ?thesis by auto
qed

subsection \<open>Tokens handed to the message builder, the watchdog, and a handshake that succeeds\<close>




lemma watch_dog_fires_dispatch:
  assumes "msgType \<noteq> OPN" and "request_body req \<noteq> CloseSecureChannelRequest_body"
  shows "on_common_message e req msgType (security_token_watch_dog_fires s)
           = (fst (on_common_message e req msgType s), security_token_watch_dog_fires s)"
  using assms
  by (cases "request_body req")
     (simp_all add: on_common_message_def security_token_watch_dog_fires_def Let_def)

lemma open_without_security_returns:
  assumes id: "sequenceHeader_requestId (messageBuilder s) \<noteq> 0"
    and body: "request_body req = OpenSecureChannelRequest_body request"
    and mode: "req_securityMode request = NONE"
    and hdr: "mb_securityHeader (messageBuilder s) = Some None_header"
    and uri: "fromURI e None_URI = Policy_None"
    and endpoint: "has_endpoint_for_security_mode_and_policy s NONE Policy_None"
    and crypto: "cryptoFactory (messageBuilder s) = None"
    and fresh: "\<And>tok. createdAt tok = now e \<Longrightarrow> \<not> expired e tok"
  shows "\<exists>opts r s'.
           on_initial_open_secure_channel_request e req s
             = (Inr [Transport_write OPN opts r, Emit_transaction_done, Callback_called False], s') \<and>
           serviceResult (responseHeader r) = Good \<and>
           resp_requestHandle (responseHeader r) = requestHandle req \<and>
           securityMode s' = NONE \<and> \<not> isOpened s' \<and>
           abort_has_been_called s' = abort_has_been_called s"
proof -
  have endpoint': "has_endpoint_for_security_mode_and_policy s' NONE Policy_None"
    if "parent s' = parent s" for s'
    using endpoint that by (simp add: has_endpoint_for_security_mode_and_policy_def)
  show ?thesis
    using id body mode hdr uri crypto
    by (simp add: on_initial_open_secure_channel_request_def Let_def
        on_initial_OpenSecureChannelRequest_def None_header_def isValidSecurityPolicy_def
        endpoint' process_certificates_def handle_OpenSecureChannelRequest_def and_then_def
        set_lifetime_def prepare_security_token_def add_new_security_token_def
        stop_security_token_watch_dog_eq start_security_token_watch_dog_def fresh
        compute_nonce_and_keys_def pushNewToken_def install_security_header_def
        prepare_security_header_def build_response_def OpenSecureChannelResponse_def
        send_and_close_unless_Good_def send_response_def get_security_options_for_OPN_def
        isOpened_def)
qed
subsection \<open>Nonces of different lengths\<close>

text \<open>
  C1, as the code has it. When the message builder has a crypto factory and the client
  nonce is not as long as the server nonce just drawn, the response starts out with
  \<open>BadSecurityModeRejected\<close>. That is the result sent unless a later check replaces it:
  \<open>BadCertificateInvalid\<close> when the thumbprint check fails, a ServiceFault with
  \<open>BadCertificateTimeInvalid\<close> when the client certificate is outside its validity
  window. The result sent is never \<open>Good\<close>, and the channel closes after the response.
  The derived keys are computed all the same, from the server nonce and the client nonce
  of the wrong length.
\<close>

theorem C1_nonce_length_mismatch:
  assumes "cryptoFactory (messageBuilder self) = Some cf"
    and "request_body (msg_request m) = OpenSecureChannelRequest_body request"
    and "req_clientNonce request = Some cn"
    and "length cn \<noteq> length (randomBytes e (symmetricKeyLength cf))"
    and "handle_OpenSecureChannelRequest e m callback self = (Inr evs, self')"
  shows "\<exists>r ok st.
     first_response evs = Some r \<and>
     (if securityMode self \<noteq> NONE
      then check_receiverCertificateThumbprint e (clientSecurityHeader self) self
      else Inr True) = Inr ok \<and>
     (case clientCertificate self' of
        None \<Rightarrow> st = Good
      | Some c \<Rightarrow> check_certificate_validity e (Some c) = Inr st) \<and>
     serviceResult (responseHeader r) =
       (if st \<noteq> Good then BadCertificateTimeInvalid
        else if ok then BadSecurityModeRejected else BadCertificateInvalid) \<and>
     serviceResult (responseHeader r) \<noteq> Good \<and>
     closes_after_response evs \<and> abort_has_been_called self' \<and>
     serverNonce self' = Some (randomBytes e (symmetricKeyLength cf)) \<and>
     derivedKeys self' =
       Some (compute_derived_keys cf (randomBytes e (symmetricKeyLength cf)) cn)"
proof -
  from handle_OpenSecureChannelRequest_outcome [OF assms(5)]
  obtain request' result ok st r where
    body: "request_body (msg_request m) = OpenSecureChannelRequest_body request'" and
    nonce: "case cryptoFactory (messageBuilder self) of
        None \<Rightarrow> result = Good \<and> serverNonce self' = serverNonce self \<and>
                derivedKeys self' = derivedKeys self
      | Some cf \<Rightarrow>
          (\<exists>cn. req_clientNonce request' = Some cn \<and>
             result = (if length cn \<noteq> symmetricKeyLength cf then BadSecurityModeRejected
                       else Good) \<and>
             serverNonce self' = Some (randomBytes e (symmetricKeyLength cf)) \<and>
             derivedKeys self' = Some (compute_derived_keys cf
                                         (randomBytes e (symmetricKeyLength cf)) cn))" and
    ok: "(if securityMode self \<noteq> NONE
          then check_receiverCertificateThumbprint e (clientSecurityHeader self) self
          else Inr True) = Inr ok" and
    st: "case clientCertificate self' of
           None \<Rightarrow> st = Good
         | Some c \<Rightarrow> check_certificate_validity e (Some c) = Inr st" and
    r: "first_response evs = Some r" and
    sr: "serviceResult (responseHeader r) =
           (if st \<noteq> Good then st else if ok then result else BadCertificateInvalid)" and
    closes: "serviceResult (responseHeader r) \<noteq> Good \<longrightarrow>
               closes_after_response evs \<and> abort_has_been_called self'"
    by blast
  from body assms(2) have "request' = request" by simp
  with nonce assms(1,3,4) have
    result: "result = BadSecurityModeRejected" and
    keys: "serverNonce self' = Some (randomBytes e (symmetricKeyLength cf))"
      "derivedKeys self' =
         Some (compute_derived_keys cf (randomBytes e (symmetricKeyLength cf)) cn)"
    by (simp_all add: length_randomBytes)
  have time: "st = Good \<or> st = BadCertificateTimeInvalid"
    using st by (cases "clientCertificate self'") (auto dest: check_certificate_validity_status)
  with sr result have sr':
    "serviceResult (responseHeader r) =
       (if st \<noteq> Good then BadCertificateTimeInvalid
        else if ok then BadSecurityModeRejected else BadCertificateInvalid)"
    by auto
  then have "serviceResult (responseHeader r) \<noteq> Good" by auto
  with closes sr' keys ok st r show ?thesis by blast
qed

theorem C1_nonce_length_mismatch_witness:
  "map_option symmetricKeyLength
     (cryptoFactory (messageBuilder sign_channel_2)) = Some 16 \<and>
   length [1, 2, 3 :: byte] \<noteq> length (randomBytes later_env 16) \<and>
   returned (handle_OpenSecureChannelRequest later_env short_nonce_renewal []
               sign_channel_2) \<and>
   map_option (serviceResult \<circ> responseHeader)
     (first_response (events_of
        (handle_OpenSecureChannelRequest later_env short_nonce_renewal [] sign_channel_2)))
     = Some BadSecurityModeRejected \<and>
   closes_after_response (events_of
     (handle_OpenSecureChannelRequest later_env short_nonce_renewal [] sign_channel_2)) \<and>
   abort_has_been_called (snd
     (handle_OpenSecureChannelRequest later_env short_nonce_renewal [] sign_channel_2)) \<and>
   derivedKeys (snd
     (handle_OpenSecureChannelRequest later_env short_nonce_renewal [] sign_channel_2))
     = Some (compute_derived_keys demo_cryptoFactory (randomBytes later_env 16) [1, 2, 3])"
proof -
  let ?self = "sign_channel_2"
  let ?run = "handle_OpenSecureChannelRequest later_env short_nonce_renewal [] ?self"
  let ?request = "\<lparr> req_securityMode = SIGN, req_clientNonce = Some [1, 2, 3],
                    requestedLifetime = 0, requestType = RENEW \<rparr>"
  have cf: "cryptoFactory (messageBuilder ?self) = Some demo_cryptoFactory"
    by (simp add: sign_channel_2_def builder_decoded_def)
  have len: "symmetricKeyLength demo_cryptoFactory = 16"
    by (simp add: demo_cryptoFactory_def)
  have body: "request_body (msg_request short_nonce_renewal)
                = OpenSecureChannelRequest_body ?request"
    by (simp add: short_nonce_renewal_def open_request_def)
  have nonce: "req_clientNonce ?request = Some [1, 2, 3]" by simp
  have differ: "length [1, 2, 3 :: byte]
                  \<noteq> length (randomBytes later_env (symmetricKeyLength demo_cryptoFactory))"
    by (simp add: length_randomBytes len)
  have r: "returned ?run" by code_simp
  have sr: "map_option (serviceResult \<circ> responseHeader) (first_response (events_of ?run))
              = Some BadSecurityModeRejected"
    by code_simp
  from C1_nonce_length_mismatch [OF cf body nonce differ returned_eq [OF r]]
  have "closes_after_response (events_of ?run)" "abort_has_been_called (snd ?run)"
    "derivedKeys (snd ?run)
       = Some (compute_derived_keys demo_cryptoFactory (randomBytes later_env 16) [1, 2, 3])"
    by (auto simp: len)
  with cf len differ r sr show ?thesis by simp
qed

text \<open>
  The claim as stated fails twice. A first request with a client nonce of three bytes under
  a policy with sixteen-byte keys is answered \<open>BadSecurityModeRejected\<close>, and the channel,
  which had no derived keys, has them afterwards. The same request from a client that
  names the wrong server certificate is answered \<open>BadCertificateInvalid\<close>.
\<close>

theorem C1_counterexample:
  "length [1, 2, 3 :: byte] \<noteq> symmetricKeyLength demo_cryptoFactory \<and>
   derivedKeys sign_channel = None \<and>
   map_option (serviceResult \<circ> responseHeader)
     (first_response (events_of (on_initial_open_secure_channel_request demo_env
        short_nonce_open sign_channel)))
     = Some BadSecurityModeRejected \<and>
   derivedKeys (snd (on_initial_open_secure_channel_request demo_env
        short_nonce_open sign_channel))
     = Some (compute_derived_keys demo_cryptoFactory
               (randomBytes demo_env 16) [1, 2, 3]) \<and>
   map_option (serviceResult \<circ> responseHeader)
     (first_response (events_of (on_initial_open_secure_channel_request demo_env
        short_nonce_open wrong_thumbprint_channel)))
     = Some BadCertificateInvalid"
  by code_simp

subsection \<open>The thumbprint of the server certificate\<close>

text \<open>
  C2, as the code has it. In a signing mode, when the security header of the first request
  carries a thumbprint, the handler compares its lowercase hexadecimal form with that of
  the SHA-1 digest of the server certificate, which is an exact comparison of the bytes.
  (Stated for a server whose certificate chain holds that one certificate.) On a mismatch a
  response is still sent and the channel then closes: the OpenSecureChannel response with
  \<open>BadCertificateInvalid\<close>, unless the client certificate is outside its validity window,
  in which case a ServiceFault with \<open>BadCertificateTimeInvalid\<close> takes its place. On a
  match the result is never \<open>BadCertificateInvalid\<close>.
\<close>

theorem C2_thumbprint_checked:
  assumes "securityMode self \<noteq> NONE"
    and "clientSecurityHeader self = Some h"
    and "receiverCertificateThumbprint h = Some thumbprint"
    and "parent self = Some p"
    and "split_der e (certificateChain p) = [certificateChain p]"
    and "handle_OpenSecureChannelRequest e m callback self = (Inr evs, self')"
  shows "\<exists>r st.
     first_response evs = Some r \<and>
     (case clientCertificate self' of
        None \<Rightarrow> st = Good
      | Some c \<Rightarrow> check_certificate_validity e (Some c) = Inr st) \<and>
     (thumbprint \<noteq> makeSHA1Thumbprint e (hd (split_der e (certificateChain p))) \<longrightarrow>
        serviceResult (responseHeader r) =
          (if st \<noteq> Good then BadCertificateTimeInvalid else BadCertificateInvalid) \<and>
        closes_after_response evs \<and> abort_has_been_called self') \<and>
     (thumbprint = makeSHA1Thumbprint e (hd (split_der e (certificateChain p))) \<longrightarrow>
        serviceResult (responseHeader r) \<noteq> BadCertificateInvalid) \<and>
     (toString_hex (makeSHA1Thumbprint e (hd (split_der e (certificateChain p))))
        = toString_hex thumbprint
      \<longleftrightarrow> makeSHA1Thumbprint e (hd (split_der e (certificateChain p))) = thumbprint) \<and>
     set (toString_hex thumbprint) \<subseteq> set ''0123456789abcdef''"
proof -
  let ?digest = "makeSHA1Thumbprint e (hd (split_der e (certificateChain p)))"
  have digest: "?digest = makeSHA1Thumbprint e (certificateChain p)"
    using assms(5) by simp
  from handle_OpenSecureChannelRequest_outcome [OF assms(6)]
  obtain request result ok st r where
    body: "request_body (msg_request m) = OpenSecureChannelRequest_body request" and
    nonce: "case cryptoFactory (messageBuilder self) of
        None \<Rightarrow> result = Good \<and> serverNonce self' = serverNonce self \<and>
                derivedKeys self' = derivedKeys self
      | Some cf \<Rightarrow>
          (\<exists>cn. req_clientNonce request = Some cn \<and>
             result = (if length cn \<noteq> symmetricKeyLength cf then BadSecurityModeRejected
                       else Good) \<and>
             serverNonce self' = Some (randomBytes e (symmetricKeyLength cf)) \<and>
             derivedKeys self' = Some (compute_derived_keys cf
                                         (randomBytes e (symmetricKeyLength cf)) cn))" and
    ok: "(if securityMode self \<noteq> NONE
          then check_receiverCertificateThumbprint e (clientSecurityHeader self) self
          else Inr True) = Inr ok" and
    st: "case clientCertificate self' of
           None \<Rightarrow> st = Good
         | Some c \<Rightarrow> check_certificate_validity e (Some c) = Inr st" and
    r: "first_response evs = Some r" and
    sr: "serviceResult (responseHeader r) =
           (if st \<noteq> Good then st else if ok then result else BadCertificateInvalid)" and
    closes: "serviceResult (responseHeader r) \<noteq> Good \<longrightarrow>
               closes_after_response evs \<and> abort_has_been_called self'"
    by blast
  have ok': "ok \<longleftrightarrow> thumbprint = ?digest"
    using ok assms(1-4) check_receiverCertificateThumbprint_Some [of h thumbprint self p e]
    by (simp add: digest)
  have result: "result = Good \<or> result = BadSecurityModeRejected"
    using nonce by (cases "cryptoFactory (messageBuilder self)") (auto split: if_splits)
  have time: "st = Good \<or> st = BadCertificateTimeInvalid"
    using st by (cases "clientCertificate self'") (auto dest: check_certificate_validity_status)
  have mismatch: "serviceResult (responseHeader r) =
          (if st \<noteq> Good then BadCertificateTimeInvalid else BadCertificateInvalid) \<and>
        closes_after_response evs \<and> abort_has_been_called self'"
    if "thumbprint \<noteq> ?digest"
    using that ok' sr closes time by auto
  have match: "serviceResult (responseHeader r) \<noteq> BadCertificateInvalid"
    if "thumbprint = ?digest"
    using that ok' sr result time by auto
  have hex: "toString_hex ?digest = toString_hex thumbprint \<longleftrightarrow> ?digest = thumbprint"
    by (rule toString_hex_inj)
  from r st mismatch match hex toString_hex_lowercase [of thumbprint] show ?thesis
    by blast
qed

theorem C2_thumbprint_checked_witness:
  "securityMode (handshake_channel demo_env sign_open SIGN
                   wrong_thumbprint_channel) \<noteq> NONE \<and>
   clientSecurityHeader (handshake_channel demo_env sign_open
                           SIGN wrong_thumbprint_channel)
     = Some (sign_client_header (Some [7, 7]) (Some wrong_thumbprint)) \<and>
   parent (handshake_channel demo_env sign_open SIGN
             wrong_thumbprint_channel) = Some demo_parent \<and>
   split_der demo_env (certificateChain demo_parent) = [certificateChain demo_parent] \<and>
   wrong_thumbprint \<noteq> makeSHA1Thumbprint demo_env (certificateChain demo_parent) \<and>
   returned (handle_OpenSecureChannelRequest demo_env
      (first_message sign_open wrong_thumbprint_channel)
      [Callback_called False]
      (handshake_channel demo_env sign_open SIGN
         wrong_thumbprint_channel)) \<and>
   map_option (serviceResult \<circ> responseHeader)
     (first_response (events_of (handle_OpenSecureChannelRequest demo_env
        (first_message sign_open wrong_thumbprint_channel)
        [Callback_called False]
        (handshake_channel demo_env sign_open SIGN
           wrong_thumbprint_channel))))
     = Some BadCertificateInvalid \<and>
   closes_after_response (events_of (handle_OpenSecureChannelRequest demo_env
      (first_message sign_open wrong_thumbprint_channel)
      [Callback_called False]
      (handshake_channel demo_env sign_open SIGN
         wrong_thumbprint_channel))) \<and>
   abort_has_been_called (snd (handle_OpenSecureChannelRequest demo_env
      (first_message sign_open wrong_thumbprint_channel)
      [Callback_called False]
      (handshake_channel demo_env sign_open SIGN
         wrong_thumbprint_channel)))"
proof -
  let ?req = "sign_open"
  let ?self = "handshake_channel demo_env ?req SIGN wrong_thumbprint_channel"
  let ?run = "handle_OpenSecureChannelRequest demo_env
                (first_message ?req wrong_thumbprint_channel) [Callback_called False] ?self"
  let ?h = "sign_client_header (Some [7, 7]) (Some wrong_thumbprint)"
  have mode: "securityMode ?self \<noteq> NONE" by code_simp
  have hdr: "clientSecurityHeader ?self = Some ?h" by code_simp
  have thumb: "receiverCertificateThumbprint ?h = Some wrong_thumbprint"
    by (simp add: sign_client_header_def)
  have par: "parent ?self = Some demo_parent" by code_simp
  have single: "split_der demo_env (certificateChain demo_parent) = [certificateChain demo_parent]"
    by (simp add: demo_env_def)
  have wrong: "wrong_thumbprint \<noteq> makeSHA1Thumbprint demo_env (certificateChain demo_parent)"
    by code_simp
  have r: "returned ?run" by code_simp
  have valid: "map_option (serviceResult \<circ> responseHeader) (first_response (events_of ?run))
                 \<noteq> Some BadCertificateTimeInvalid"
    by code_simp
  from C2_thumbprint_checked [OF mode hdr thumb par single returned_eq [OF r]] wrong single
  obtain resp st where
    "first_response (events_of ?run) = Some resp"
    "serviceResult (responseHeader resp) =
       (if st \<noteq> Good then BadCertificateTimeInvalid else BadCertificateInvalid)"
    "closes_after_response (events_of ?run)" "abort_has_been_called (snd ?run)"
    by auto
  with valid have
    "map_option (serviceResult \<circ> responseHeader) (first_response (events_of ?run))
       = Some BadCertificateInvalid"
    "closes_after_response (events_of ?run)" "abort_has_been_called (snd ?run)"
    by (auto split: if_splits)
  with mode hdr par single wrong r show ?thesis by simp
qed

text \<open>
  The claim as stated fails for a client whose thumbprint does not match and whose
  certificate has expired: what is sent is a ServiceFault with \<open>BadCertificateTimeInvalid\<close>,
  not an OpenSecureChannel response with \<open>BadCertificateInvalid\<close>.
\<close>

theorem C2_counterexample:
  "securityMode (snd (on_initial_open_secure_channel_request demo_env
      sign_open expired_certificate_channel)) \<noteq> NONE \<and>
   map_option receiverCertificateThumbprint
     (mb_securityHeader (messageBuilder expired_certificate_channel))
     = Some (Some wrong_thumbprint) \<and>
   toString_hex wrong_thumbprint
     \<noteq> toString_hex (makeSHA1Thumbprint demo_env (certificateChain demo_parent)) \<and>
   first_response (events_of (on_initial_open_secure_channel_request demo_env
      sign_open expired_certificate_channel))
     = Some \<lparr> responseHeader = \<lparr> serviceResult = BadCertificateTimeInvalid,
                                   resp_requestHandle = 77 \<rparr>,
              response_body = ServiceFault_body None \<rparr>"
  by code_simp

subsection \<open>A missing thumbprint\<close>

text \<open>
  C3 says that a security header without a \<open>receiverCertificateThumbprint\<close> fails the
  thumbprint step in a signing mode. \<open>_check_receiverCertificateThumbprint\<close> answers
  \<open>true\<close> for it, although the comment at its call says that the server shall verify
  that a thumbprint was specified: a signing client that names no server certificate is
  answered \<open>Good\<close> and the channel stays open.
\<close>

theorem C3_missing_thumbprint_accepted:
  "receiverCertificateThumbprint (sign_client_header (Some [7, 7]) None) = None \<and>
   securityMode (snd (on_initial_open_secure_channel_request demo_env
      sign_open no_thumbprint_channel)) = SIGN \<and>
   map_option (serviceResult \<circ> responseHeader)
     (first_response (events_of (on_initial_open_secure_channel_request demo_env
        sign_open no_thumbprint_channel)))
     = Some Good \<and>
   \<not> closes_after_response (events_of (on_initial_open_secure_channel_request demo_env
        sign_open no_thumbprint_channel)) \<and>
   \<not> abort_has_been_called (snd (on_initial_open_secure_channel_request demo_env
        sign_open no_thumbprint_channel))"
  by code_simp

subsection \<open>The previous token\<close>



subsection \<open>The expiry watchdog\<close>

text \<open>
  C5 says that the watchdog fires at 1.2 times the revised lifetime after the creation of
  the token and then sets a flag by which later requests under that token are rejected.
  The timer is armed with that delay, when the token is created. When it fires, its
  callback announces that the server will now refuse the token and clears the timer handle;
  nothing else changes, and a request that arrives afterwards is passed to the observers
  as before.
\<close>

theorem C5_watch_dog_sets_no_flag:
  "securityToken opened_none_channel
     = Some \<lparr> tok_secureChannelId = 1, tokenId = 1, createdAt = 1000000,
              tok_revisedLifeTime = 600000 \<rparr> \<and>
   securityTokenTimeout opened_none_channel = Some \<lparr> armed_at = 1000000, delay = 720000 \<rparr> \<and>
   securityTokenTimeout (security_token_watch_dog_fires opened_none_channel) = None \<and>
   securityToken (security_token_watch_dog_fires opened_none_channel)
     = securityToken opened_none_channel \<and>
   \<not> abort_has_been_called (security_token_watch_dog_fires opened_none_channel) \<and>
   now after_expiry_env > 1000000 + 720000 \<and>
   fst (on_common_message after_expiry_env (msg_request read_message) MSG
          (builder_decoded None None 5 (security_token_watch_dog_fires opened_none_channel)))
     = Inr [Emit_message read_message] \<and>
   fst (on_common_message after_expiry_env (msg_request read_message) MSG
          (builder_decoded None None 5 opened_none_channel))
     = Inr [Emit_message read_message]"
  by code_simp

subsection \<open>The revised lifetime\<close>

text \<open>
  C6. For a requested lifetime that is not negative, on a channel whose
  \<open>defaultSecureTokenLifetime\<close> is positive (600000 unless the options say otherwise),
  \<open>_set_lifetime\<close> revises the lifetime to the default when 0 is requested and to the
  smaller of the default and the request otherwise; the result lies in
  \<open>(0, defaultSecureTokenLifetime]\<close>, and it is the lifetime of the token the request
  installs.
\<close>

theorem C6_revised_lifetime:
  assumes "0 \<le> requestedLifetime request" and "0 < defaultSecureTokenLifetime self"
  shows "revisedLifeTime (set_lifetime (requestedLifetime request) self)
           = Some (if requestedLifetime request = 0 then defaultSecureTokenLifetime self
                   else min (defaultSecureTokenLifetime self) (requestedLifetime request)) \<and>
         (\<exists>rl. revisedLifeTime (set_lifetime (requestedLifetime request) self) = Some rl \<and>
               0 < rl \<and> rl \<le> defaultSecureTokenLifetime self) \<and>
         (request_body (msg_request m) = OpenSecureChannelRequest_body request \<and>
          handle_OpenSecureChannelRequest e m callback self = (Inr evs, self') \<longrightarrow>
            (\<exists>tok. securityToken self' = Some tok \<and>
               tok_revisedLifeTime tok
                 = (if requestedLifetime request = 0 then defaultSecureTokenLifetime self
                    else min (defaultSecureTokenLifetime self) (requestedLifetime request)) \<and>
               0 < tok_revisedLifeTime tok \<and>
               tok_revisedLifeTime tok \<le> defaultSecureTokenLifetime self)) \<and>
         defaultSecureTokenLifetime
           (constructor last_channel_id
              \<lparr> opt_parent = p, opt_timeout = t, opt_defaultSecureTokenLifetime = None \<rparr>)
           = 600000"
proof -
  let ?rl = "if requestedLifetime request = 0 then defaultSecureTokenLifetime self
             else min (defaultSecureTokenLifetime self) (requestedLifetime request)"
  have set: "revisedLifeTime (set_lifetime (requestedLifetime request) self) = Some ?rl"
    by (simp add: set_lifetime_def)
  have range: "0 < ?rl \<and> ?rl \<le> defaultSecureTokenLifetime self"
    using assms by auto
  have tok: "\<exists>tok. securityToken self' = Some tok \<and> tok_revisedLifeTime tok = ?rl \<and>
               0 < tok_revisedLifeTime tok \<and>
               tok_revisedLifeTime tok \<le> defaultSecureTokenLifetime self"
    if "request_body (msg_request m) = OpenSecureChannelRequest_body request"
      and "handle_OpenSecureChannelRequest e m callback self = (Inr evs, self')"
    using handle_OpenSecureChannelRequest_token [OF that(2)] that(1) range by auto
  have "defaultSecureTokenLifetime
           (constructor last_channel_id
              \<lparr> opt_parent = p, opt_timeout = t, opt_defaultSecureTokenLifetime = None \<rparr>)
           = 600000"
    by (simp add: constructor_def or_default_def)
  with set range tok show ?thesis by blast
qed

theorem C6_revised_lifetime_witness:
  "(0 :: rat) \<le> 300000 \<and>
   0 < defaultSecureTokenLifetime demo_none_channel \<and>
   revisedLifeTime (set_lifetime 300000 demo_none_channel) = Some 300000 \<and>
   returned (handle_OpenSecureChannelRequest later_env renew_message [] demo_none_channel) \<and>
   map_option tok_revisedLifeTime
     (securityToken (snd (handle_OpenSecureChannelRequest later_env renew_message []
                            demo_none_channel))) = Some 300000 \<and>
   defaultSecureTokenLifetime demo_none_channel = 600000"
proof -
  let ?request = "\<lparr> req_securityMode = NONE, req_clientNonce = None,
                    requestedLifetime = 300000, requestType = RENEW \<rparr>"
  let ?run = "handle_OpenSecureChannelRequest later_env renew_message [] demo_none_channel"
  have d: "defaultSecureTokenLifetime demo_none_channel = 600000" by code_simp
  have h1: "0 \<le> requestedLifetime ?request" by simp
  have h2: "0 < defaultSecureTokenLifetime demo_none_channel" by (simp add: d)
  have body: "request_body (msg_request renew_message) = OpenSecureChannelRequest_body ?request"
    by (simp add: renew_message_def open_request_def)
  have r: "returned ?run" by code_simp
  note C6 = C6_revised_lifetime [OF h1 h2,
      of renew_message later_env "[]" "events_of ?run" "snd ?run" 0 None None]
  from C6 have "revisedLifeTime (set_lifetime 300000 demo_none_channel) = Some 300000"
    by (simp add: d)
  moreover from C6 body returned_eq [OF r]
  have "map_option tok_revisedLifeTime (securityToken (snd ?run)) = Some 300000"
    by (auto simp: d)
  ultimately show ?thesis using r d by simp
qed

subsection \<open>A response that is not Good ends the channel\<close>

text \<open>
  C7. Whenever the handshake answers with a service result other than \<open>Good\<close>, be it in
  an OpenSecureChannel response or in a ServiceFault, the response is the first thing the
  channel hands to the transport, the transport is disconnected as soon as the response has
  been flushed, and the channel ends aborted. This holds for the first request of a channel,
  for a renewal, and for \<open>send_error_and_abort\<close>, which closes after every fault it sends.
\<close>

theorem C7_non_Good_response_then_close:
  "(on_initial_open_secure_channel_request e req self = (Inr evs, self') \<longrightarrow>
      (\<exists>r. first_response evs = Some r \<and>
         (serviceResult (responseHeader r) \<noteq> Good \<longrightarrow>
            closes_after_response evs \<and> abort_has_been_called self'))) \<and>
   (on_common_message e req OPN self = (Inr evs, self') \<and>
    request_body req = OpenSecureChannelRequest_body request \<longrightarrow>
      (\<exists>r. first_response evs = Some r \<and>
         (serviceResult (responseHeader r) \<noteq> Good \<longrightarrow>
            closes_after_response evs \<and> abort_has_been_called self'))) \<and>
   (send_error_and_abort e statusCode description m callback self = (Inr evs, self') \<longrightarrow>
      (\<exists>r. first_response evs = Some r \<and> serviceResult (responseHeader r) = statusCode \<and>
         closes_after_response evs \<and> abort_has_been_called self'))"
proof (intro conjI impI)
  assume "on_initial_open_secure_channel_request e req self = (Inr evs, self')"
  from first_handshake_closes_unless_Good [OF this]
  show "\<exists>r. first_response evs = Some r \<and>
         (serviceResult (responseHeader r) \<noteq> Good \<longrightarrow>
            closes_after_response evs \<and> abort_has_been_called self')"
    by blast
next
  assume "on_common_message e req OPN self = (Inr evs, self') \<and>
    request_body req = OpenSecureChannelRequest_body request"
  then have "on_common_message e req OPN self = (Inr evs, self')"
    "request_body req = OpenSecureChannelRequest_body request" by simp_all
  from renewal_closes_unless_Good [OF this]
  show "\<exists>r. first_response evs = Some r \<and>
         (serviceResult (responseHeader r) \<noteq> Good \<longrightarrow>
            closes_after_response evs \<and> abort_has_been_called self')"
    by blast
next
  assume "send_error_and_abort e statusCode description m callback self = (Inr evs, self')"
  from send_error_and_abort_Inr [OF this]
  show "\<exists>r. first_response evs = Some r \<and> serviceResult (responseHeader r) = statusCode \<and>
         closes_after_response evs \<and> abort_has_been_called self'"
    by auto
qed

theorem C7_non_Good_response_then_close_witness:
  "returned (on_initial_open_secure_channel_request demo_env short_nonce_open sign_channel) \<and>
   map_option (serviceResult \<circ> responseHeader)
     (first_response (events_of (on_initial_open_secure_channel_request demo_env
        short_nonce_open sign_channel)))
     = Some BadSecurityModeRejected \<and>
   closes_after_response (events_of (on_initial_open_secure_channel_request demo_env
        short_nonce_open sign_channel)) \<and>
   abort_has_been_called (snd (on_initial_open_secure_channel_request demo_env
        short_nonce_open sign_channel)) \<and>
   returned (on_common_message later_env short_nonce_renew OPN sign_channel_2) \<and>
   map_option (serviceResult \<circ> responseHeader)
     (first_response (events_of (on_common_message later_env short_nonce_renew OPN
        sign_channel_2)))
     = Some BadSecurityModeRejected \<and>
   closes_after_response (events_of (on_common_message later_env short_nonce_renew OPN
        sign_channel_2)) \<and>
   abort_has_been_called (snd (on_common_message later_env short_nonce_renew OPN
        sign_channel_2)) \<and>
   returned (send_error_and_abort demo_env BadSecurityChecksFailed ''no session'' read_message []
               opened_none_channel) \<and>
   closes_after_response (events_of (send_error_and_abort demo_env BadSecurityChecksFailed
        ''no session'' read_message [] opened_none_channel)) \<and>
   abort_has_been_called (snd (send_error_and_abort demo_env BadSecurityChecksFailed
        ''no session'' read_message [] opened_none_channel))"
proof -
  let ?first = "on_initial_open_secure_channel_request demo_env
                  short_nonce_open sign_channel"
  let ?renewal = "on_common_message later_env short_nonce_renew OPN
                    sign_channel_2"
  let ?fault = "send_error_and_abort demo_env BadSecurityChecksFailed ''no session''
                  read_message [] opened_none_channel"
  note C7 = C7_non_Good_response_then_close
  have r1: "returned ?first" by code_simp
  have f1: "map_option (serviceResult \<circ> responseHeader) (first_response (events_of ?first))
              = Some BadSecurityModeRejected" by code_simp
  from C7 [THEN conjunct1, rule_format, OF returned_eq [OF r1]] f1
  have c1: "closes_after_response (events_of ?first) \<and> abort_has_been_called (snd ?first)"
    by auto
  have r2: "returned ?renewal" by code_simp
  have f2: "map_option (serviceResult \<circ> responseHeader) (first_response (events_of ?renewal))
              = Some BadSecurityModeRejected" by code_simp
  have b2: "request_body short_nonce_renew
              = OpenSecureChannelRequest_body
                  \<lparr> req_securityMode = SIGN, req_clientNonce = Some [1, 2, 3],
                    requestedLifetime = 0, requestType = RENEW \<rparr>"
    by (simp add: short_nonce_renew_def open_request_def)
  from C7 [THEN conjunct2, THEN conjunct1, rule_format, OF conjI, OF returned_eq [OF r2] b2] f2
  have c2: "closes_after_response (events_of ?renewal) \<and> abort_has_been_called (snd ?renewal)"
    by auto
  have r3: "returned ?fault" by code_simp
  from C7 [THEN conjunct2, THEN conjunct2, rule_format, OF returned_eq [OF r3]]
  have c3: "closes_after_response (events_of ?fault) \<and> abort_has_been_called (snd ?fault)"
    by auto
  from r1 f1 c1 r2 f2 c2 r3 c3 show ?thesis by blast
qed

subsection \<open>Token identifiers\<close>

text \<open>
  C8. Within a channel the identifiers of the tokens issued one after the other are
  consecutive: a run of OpenSecureChannel requests that starts with \<open>lastTokenId = n\<close>
  installs the tokens \<open>n + 1\<close>, \<open>n + 2\<close>, ... in this order, so each is greater than all
  before it; the constructor starts the counter at 0, so the first token of a channel is
  token 1.
\<close>

theorem C8_tokenId_strictly_increasing:
  assumes "handle_all (self :: ServerSecureChannelLayer) steps = Inr toks"
  shows "map tokenId toks = [lastTokenId self + 1 ..< lastTokenId self + 1 + length steps] \<and>
         sorted_wrt (<) (map tokenId toks) \<and>
         lastTokenId (constructor last_channel_id opts) = 0"
proof -
  have ids: "map tokenId toks = [lastTokenId self + 1 ..< lastTokenId self + 1 + length steps]"
    using assms by (rule handle_all_tokenIds)
  have "sorted_wrt (<) [lastTokenId self + 1 ..< lastTokenId self + 1 + length steps]"
    by (rule sorted_wrt_upt)
  with ids have "sorted_wrt (<) (map tokenId toks)" by simp
  moreover have "lastTokenId (constructor last_channel_id opts) = 0"
    by (simp add: constructor_def)
  ultimately show ?thesis using ids by blast
qed

theorem C8_tokenId_strictly_increasing_witness:
  "handle_all demo_none_channel [(demo_env, issue_message), (later_env, renew_message)]
     = Inr [\<lparr> tok_secureChannelId = 1, tokenId = 1, createdAt = 1000000,
               tok_revisedLifeTime = 600000 \<rparr>,
            \<lparr> tok_secureChannelId = 1, tokenId = 2, createdAt = 1500000,
               tok_revisedLifeTime = 300000 \<rparr>] \<and>
   lastTokenId demo_none_channel = 0 \<and>
   sorted_wrt (<) [1 :: nat, 2]"
proof -
  have run: "handle_all demo_none_channel [(demo_env, issue_message), (later_env, renew_message)]
     = Inr [\<lparr> tok_secureChannelId = 1, tokenId = 1, createdAt = 1000000,
               tok_revisedLifeTime = 600000 \<rparr>,
            \<lparr> tok_secureChannelId = 1, tokenId = 2, createdAt = 1500000,
               tok_revisedLifeTime = 300000 \<rparr>]"
    by code_simp
  have start: "lastTokenId demo_none_channel = 0"
    by code_simp
  from C8_tokenId_strictly_increasing [OF run] show ?thesis
    using run start by simp
qed

subsection \<open>Request handles\<close>

text \<open>
  C9. Every response \<open>send_response\<close> writes carries the \<open>requestHandle\<close> of the request
  it answers, and so does every response the channel writes on its own: the fault of
  \<open>send_error_and_abort\<close>, the answer to the first OpenSecureChannel request and the
  answer to a renewal.
\<close>

theorem C9_requestHandle_copied:
  "(send_response e msgType resp m self = (Inr evs, self') \<longrightarrow>
      (\<exists>opts r. evs = [Transport_write msgType opts r, Emit_transaction_done] \<and>
         resp_requestHandle (responseHeader r) = requestHandle (msg_request m))) \<and>
   (send_error_and_abort e statusCode description m callback self = (Inr evs, self') \<longrightarrow>
      (\<exists>r. first_response evs = Some r \<and>
         resp_requestHandle (responseHeader r) = requestHandle (msg_request m))) \<and>
   (on_initial_open_secure_channel_request e req self = (Inr evs, self') \<longrightarrow>
      (\<exists>r. responses_written evs = [r] \<and>
         resp_requestHandle (responseHeader r) = requestHandle req)) \<and>
   (on_common_message e req msgType self = (Inr evs, self') \<longrightarrow>
      (\<forall>r \<in> set (responses_written evs).
         resp_requestHandle (responseHeader r) = requestHandle req))"
proof (intro conjI impI)
  assume "send_response e msgType resp m self = (Inr evs, self')"
  from send_response_Inr [OF this]
  show "\<exists>opts r. evs = [Transport_write msgType opts r, Emit_transaction_done] \<and>
          resp_requestHandle (responseHeader r) = requestHandle (msg_request m)"
    by auto
next
  assume "send_error_and_abort e statusCode description m callback self = (Inr evs, self')"
  from send_error_and_abort_Inr [OF this]
  show "\<exists>r. first_response evs = Some r \<and>
          resp_requestHandle (responseHeader r) = requestHandle (msg_request m)"
    by auto
next
  assume "on_initial_open_secure_channel_request e req self = (Inr evs, self')"
  from first_handshake_closes_unless_Good [OF this]
  show "\<exists>r. responses_written evs = [r] \<and>
          resp_requestHandle (responseHeader r) = requestHandle req"
    by blast
next
  assume "on_common_message e req msgType self = (Inr evs, self')"
  then show "\<forall>r \<in> set (responses_written evs).
               resp_requestHandle (responseHeader r) = requestHandle req"
    by (rule on_common_message_responses)
qed

theorem C9_requestHandle_copied_witness:
  "returned (send_response demo_env MSG read_response read_message opened_none_channel) \<and>
   map (resp_requestHandle \<circ> responseHeader)
     (responses_written (events_of
        (send_response demo_env MSG read_response read_message opened_none_channel))) = [42] \<and>
   requestHandle (msg_request read_message) = 42 \<and>
   returned (send_error_and_abort demo_env BadSecurityChecksFailed ''no session'' read_message []
               opened_none_channel) \<and>
   map_option (resp_requestHandle \<circ> responseHeader)
     (first_response (events_of
        (send_error_and_abort demo_env BadSecurityChecksFailed ''no session'' read_message []
           opened_none_channel))) = Some 42 \<and>
   returned (on_initial_open_secure_channel_request demo_env none_open none_channel) \<and>
   map (resp_requestHandle \<circ> responseHeader)
     (responses_written (events_of
        (on_initial_open_secure_channel_request demo_env none_open none_channel))) = [77] \<and>
   requestHandle none_open = 77 \<and>
   returned (on_common_message later_env none_renew OPN none_channel_2) \<and>
   map (resp_requestHandle \<circ> responseHeader)
     (responses_written (events_of
        (on_common_message later_env none_renew OPN none_channel_2))) = [77]"
proof -
  let ?send = "send_response demo_env MSG read_response read_message opened_none_channel"
  let ?fault = "send_error_and_abort demo_env BadSecurityChecksFailed ''no session''
                  read_message [] opened_none_channel"
  let ?first = "on_initial_open_secure_channel_request demo_env
                  none_open none_channel"
  let ?renewal = "on_common_message later_env none_renew OPN
                    none_channel_2"
  note C9 = C9_requestHandle_copied
  have h42: "requestHandle (msg_request read_message) = 42" by code_simp
  have h77: "requestHandle none_open = 77"
    "requestHandle none_renew = 77" by code_simp+
  have r1: "returned ?send" by code_simp
  from C9 [THEN conjunct1, rule_format, OF returned_eq [OF r1]] h42
  have c1: "map (resp_requestHandle \<circ> responseHeader) (responses_written (events_of ?send)) = [42]"
    by auto
  have r2: "returned ?fault" by code_simp
  from C9 [THEN conjunct2, THEN conjunct1, rule_format, OF returned_eq [OF r2]] h42
  have c2: "map_option (resp_requestHandle \<circ> responseHeader) (first_response (events_of ?fault))
              = Some 42"
    by auto
  have r3: "returned ?first" by code_simp
  from C9 [THEN conjunct2, THEN conjunct2, THEN conjunct1, rule_format, OF returned_eq [OF r3]] h77
  have c3: "map (resp_requestHandle \<circ> responseHeader) (responses_written (events_of ?first)) = [77]"
    by auto
  have r4: "returned ?renewal" by code_simp
  have n4: "length (responses_written (events_of ?renewal)) = 1" by code_simp
  from C9 [THEN conjunct2, THEN conjunct2, THEN conjunct2, rule_format, OF returned_eq [OF r4]] h77
  have "\<forall>r \<in> set (responses_written (events_of ?renewal)).
          resp_requestHandle (responseHeader r) = 77"
    by auto
  with n4 have c4: "map (resp_requestHandle \<circ> responseHeader)
                      (responses_written (events_of ?renewal)) = [77]"
    by (cases "responses_written (events_of ?renewal)") auto
  from r1 c1 h42 r2 c2 r3 c3 h77 r4 c4 show ?thesis by blast
qed

subsection \<open>The property isOpened\<close>

text \<open>
  C10 says that \<open>isOpened\<close> is truthy exactly when a client certificate has been cached
  from the first OpenSecureChannel request, so that a channel opened under security mode
  None, without a certificate, is open with \<open>isOpened\<close> falsy. The getter, documented as
  "true when the secure channel has been opened successfully", returns
  \<open>clientCertificate\<close>, and the handler overwrites that field on every request from the
  security header of the message: \<open>_on_initial_open_secure_channel_request\<close> puts the
  header the builder read into the message, \<open>_on_common_message\<close> puts none. A signing
  client shows it: its first request is answered \<open>Good\<close>, the certificate is cached and
  \<open>isOpened\<close> is truthy; its renewal is answered \<open>Good\<close>, the channel stays open, the
  certificate is still cached as \<open>receiverCertificate\<close> and in \<open>clientSecurityHeader\<close>,
  and \<open>isOpened\<close> is falsy. What the claim draws for security mode None holds: the client
  without security is answered \<open>Good\<close>, and its channel is open with \<open>isOpened\<close> falsy.
\<close>

theorem C10_isOpened_falsy_after_renewal:
  "map_option (serviceResult \<circ> responseHeader)
     (first_response (events_of (on_initial_open_secure_channel_request demo_env
        sign_open sign_channel))) = Some Good \<and>
   receiverCertificate opened_sign_channel = Some [7, 7] \<and>
   isOpened opened_sign_channel \<and>
   map_option (serviceResult \<circ> responseHeader)
     (first_response (events_of (on_common_message later_env sign_renew OPN
        sign_channel_2))) = Some Good \<and>
   \<not> abort_has_been_called renewed_sign_channel \<and>
   receiverCertificate renewed_sign_channel = Some [7, 7] \<and>
   map_option senderCertificate (clientSecurityHeader renewed_sign_channel) = Some (Some [7, 7]) \<and>
   \<not> isOpened renewed_sign_channel \<and>
   map_option (serviceResult \<circ> responseHeader)
     (first_response (events_of (on_initial_open_secure_channel_request demo_env
        none_open none_channel))) = Some Good \<and>
   securityMode opened_none_channel = NONE \<and>
   \<not> abort_has_been_called opened_none_channel \<and>
   \<not> isOpened opened_none_channel"
  by code_simp


end
